theory Spec2Isabelle
  imports Complex_Main
begin

section \<open>Python values and string operations used by the daemon\<close>

text \<open>
  The daemon (\<^verbatim>\<open>up_core/daemon\<close>) is Python. Its strings are modelled as \<^typ>\<open>string\<close>
  (8-bit characters, which covers the ASCII output of the tools it parses), its
  unbounded integers as \<^typ>\<open>int\<close> or \<^typ>\<open>nat\<close>, and its floats as \<^typ>\<open>rat\<close>:
  every comparison of a float with an integer constant in the source is exact, so the
  rational value of the float decides it. An exception is a value: its class name and
  its message (what \<^verbatim>\<open>str(e)\<close> prints).
\<close>

datatype exn = Exn (exn_class: string) (exn_msg: string)

datatype pyval =
    PStr string
  | PInt int
  | PFloat rat
  | PList "pyval list"
  | PDict "(string \<times> pyval) list"

text \<open>\<^verbatim>\<open>s.startswith(p)\<close>\<close>

definition startswith :: "string \<Rightarrow> string \<Rightarrow> bool" where
  "startswith s p = (take (length p) s = p)"

text \<open>\<^verbatim>\<open>sub in s\<close> for strings\<close>

fun str_in :: "string \<Rightarrow> string \<Rightarrow> bool" where
  "str_in sub [] = (sub = [])"
| "str_in sub (c # cs) = (startswith (c # cs) sub \<or> str_in sub cs)"

text \<open>
  \<^verbatim>\<open>s.replace(old, new)\<close>: the occurrences of \<open>old\<close> are found from the left
  and do not overlap; an empty \<open>old\<close> matches before every character and at the end.
\<close>

fun replace_nonempty :: "string \<Rightarrow> string \<Rightarrow> string \<Rightarrow> string" where
  "replace_nonempty old new [] = []"
| "replace_nonempty old new (c # cs) =
     (if startswith (c # cs) old
      then new @ replace_nonempty old new (drop (length old - 1) cs)
      else c # replace_nonempty old new cs)"

definition replace :: "string \<Rightarrow> string \<Rightarrow> string \<Rightarrow> string" where
  "replace s old new =
     (if old = [] then new @ concat (map (\<lambda>c. c # new) s)
      else replace_nonempty old new s)"

text \<open>
  Whitespace as \<^verbatim>\<open>str.isspace\<close>, \<^verbatim>\<open>str.split()\<close>, \<^verbatim>\<open>str.strip()\<close> and the regular
  expression class \<^verbatim>\<open>\s\<close> see it, within ASCII: tab, line feed, vertical tab, form
  feed, carriage return, the four separators 0x1C to 0x1F, and the space.
\<close>

definition isspace :: "char \<Rightarrow> bool" where
  "isspace c = (let n = (of_char c :: nat) in (9 \<le> n \<and> n \<le> 13) \<or> (28 \<le> n \<and> n \<le> 32))"

definition isdigit :: "char \<Rightarrow> bool" where
  "isdigit c = (let n = (of_char c :: nat) in 48 \<le> n \<and> n \<le> 57)"

text \<open>\<^verbatim>\<open>s.split()\<close>: the maximal runs of non-whitespace characters (\<open>cur\<close> is the
  run being read, reversed).\<close>

fun split_ws_from :: "string \<Rightarrow> string \<Rightarrow> string list" where
  "split_ws_from cur [] = (if cur = [] then [] else [rev cur])"
| "split_ws_from cur (c # cs) =
     (if isspace c
      then (if cur = [] then split_ws_from [] cs else rev cur # split_ws_from [] cs)
      else split_ws_from (c # cur) cs)"

definition split_ws :: "string \<Rightarrow> string list" where
  "split_ws s = split_ws_from [] s"

text \<open>\<^verbatim>\<open>s.split(sep)\<close> for a one-character separator: never the empty list.\<close>

fun split_on :: "char \<Rightarrow> string \<Rightarrow> string list" where
  "split_on sep [] = [[]]"
| "split_on sep (c # cs) =
     (if c = sep then [] # split_on sep cs
      else (case split_on sep cs of
              [] \<Rightarrow> [[c]]
            | w # ws \<Rightarrow> (c # w) # ws))"

text \<open>\<^verbatim>\<open>s.splitlines()\<close>: lines end at line feed, carriage return (with a line feed
  after it as one boundary), vertical tab, form feed and the separators 0x1C to 0x1E;
  no empty last line.\<close>

definition is_linebreak :: "char \<Rightarrow> bool" where
  "is_linebreak c = (let n = (of_char c :: nat) in (10 \<le> n \<and> n \<le> 13) \<or> (28 \<le> n \<and> n \<le> 30))"

fun splitlines_from :: "string \<Rightarrow> string \<Rightarrow> string list" where
  "splitlines_from cur [] = (if cur = [] then [] else [rev cur])"
| "splitlines_from cur [c] =
     (if is_linebreak c then [rev cur] else [rev (c # cur)])"
| "splitlines_from cur (c # d # cs) =
     (if c = CHR 0x0D \<and> d = CHR 0x0A then rev cur # splitlines_from [] cs
      else if is_linebreak c then rev cur # splitlines_from [] (d # cs)
      else splitlines_from (c # cur) (d # cs))"

definition splitlines :: "string \<Rightarrow> string list" where
  "splitlines s = splitlines_from [] s"

text \<open>\<^verbatim>\<open>s.strip()\<close>, \<^verbatim>\<open>s.rstrip(chars)\<close>, \<^verbatim>\<open>s.lower()\<close>, \<^verbatim>\<open>os.path.basename(p)\<close>\<close>

definition strip :: "string \<Rightarrow> string" where
  "strip s = rev (dropWhile isspace (rev (dropWhile isspace s)))"

definition rstrip :: "string \<Rightarrow> string \<Rightarrow> string" where
  "rstrip s chars = rev (dropWhile (\<lambda>c. c \<in> set chars) (rev s))"

definition lower_char :: "char \<Rightarrow> char" where
  "lower_char c = (let n = (of_char c :: nat) in if 65 \<le> n \<and> n \<le> 90 then char_of (n + 32) else c)"

definition lower :: "string \<Rightarrow> string" where
  "lower s = map lower_char s"

definition basename :: "string \<Rightarrow> string" where
  "basename p = rev (takeWhile (\<lambda>c. c \<noteq> CHR ''/'') (rev p))"

text \<open>\<^verbatim>\<open>str(n)\<close> for an integer\<close>

definition digit_char :: "nat \<Rightarrow> char" where
  "digit_char d = char_of (48 + d)"

function str_nat :: "nat \<Rightarrow> string" where
  "str_nat n = (if n < 10 then [digit_char n] else str_nat (n div 10) @ [digit_char (n mod 10)])"
  by pat_completeness auto
termination
  by (relation "measure id") auto

declare str_nat.simps [simp del]

definition str_int :: "int \<Rightarrow> string" where
  "str_int i = (if i < 0 then CHR ''-'' # str_nat (nat (- i)) else str_nat (nat i))"

text \<open>
  \<^verbatim>\<open>int(s)\<close> in base 10: surrounding whitespace is dropped, a sign may lead, and the
  digits may be grouped by single underscores; anything else raises \<^verbatim>\<open>ValueError\<close>.
  The whitespace \<^verbatim>\<open>int\<close> drops from an ASCII string is that of C's \<^verbatim>\<open>isspace\<close>: tab to
  carriage return and the space, without the separators 0x1C to 0x1F.
\<close>

definition int_space :: "char \<Rightarrow> bool" where
  "int_space c = (let n = (of_char c :: nat) in (9 \<le> n \<and> n \<le> 13) \<or> n = 32)"

definition int_strip :: "string \<Rightarrow> string" where
  "int_strip s = rev (dropWhile int_space (rev (dropWhile int_space s)))"

fun digit_groups :: "string \<Rightarrow> bool" where
  "digit_groups [] = False"
| "digit_groups [c] = isdigit c"
| "digit_groups (c # d # cs) =
     (isdigit c \<and> (if d = CHR ''_'' then digit_groups cs else digit_groups (d # cs)))"

definition digits_value :: "string \<Rightarrow> nat" where
  "digits_value s = foldl (\<lambda>a c. 10 * a + (of_char c - 48)) 0 (filter isdigit s)"

definition py_int :: "string \<Rightarrow> exn + int" where
  "py_int s =
     (let t = int_strip s;
          neg = (t \<noteq> [] \<and> hd t = CHR ''-'');
          body = (if t \<noteq> [] \<and> (hd t = CHR ''-'' \<or> hd t = CHR ''+'') then tl t else t)
      in if digit_groups body
         then Inr (if neg then - int (digits_value body) else int (digits_value body))
         else Inl (Exn ''ValueError'' (''invalid literal for int() with base 10: '' @ s)))"

text \<open>A command for \<^verbatim>\<open>subprocess.run\<close>: a shell line (\<^verbatim>\<open>shell=True\<close>) or an
  argument vector.\<close>

datatype cmd = Shell string | Argv "string list"

text \<open>
  What the model takes from the Python runtime without defining it: the formatting of
  a float by \<^verbatim>\<open>str\<close> and by \<^verbatim>\<open>:.2f\<close>, \<^verbatim>\<open>round(x, 2)\<close>, \<^verbatim>\<open>float(s)\<close>,
  \<^verbatim>\<open>time.ctime\<close>, the validity test of \<^verbatim>\<open>socket.inet_aton\<close>, and the
  \<^verbatim>\<open>CalledProcessError\<close> that \<^verbatim>\<open>subprocess.run(..., check=True)\<close> raises for a
  command and its non-zero exit status.
\<close>

record pylib =
  str_float :: "rat \<Rightarrow> string"
  fmt_2f :: "rat \<Rightarrow> string"
  round2 :: "rat \<Rightarrow> rat"
  float_of_str :: "string \<Rightarrow> exn + rat"
  ctime :: "rat \<Rightarrow> string"
  inet_aton_ok :: "string \<Rightarrow> bool"
  called_process_error :: "cmd \<Rightarrow> int \<Rightarrow> exn"

section \<open>The issue model and the host the daemon observes\<close>

text \<open>
  An issue and a repair result are Python dictionaries with fixed keys; both carry the
  key \<^verbatim>\<open>id\<close> (written \<open>id'\<close> here, since \<open>id\<close> is the identity function of HOL).
  Severities and components are the source's strings.
\<close>

record keyed =
  id' :: string

record Issue = keyed +
  severity :: string
  description :: string
  component :: string
  data :: "(string \<times> pyval) list"

record RepairResult = keyed +
  success :: bool
  message :: string

text \<open>
  The values \<^verbatim>\<open>psutil\<close> returns, with the attributes the daemon reads, and the result
  of \<^verbatim>\<open>subprocess.run\<close>.
\<close>

record sdiskpart =
  mountpoint :: string
  fstype :: string

record sdiskusage =
  du_total :: int
  du_free :: int
  du_percent :: rat

record svmem =
  vm_total :: int
  vm_available :: int
  vm_percent :: rat

record sswap =
  sw_total :: int
  sw_used :: int
  sw_percent :: rat

record procinfo =
  proc_pid :: int
  proc_name :: string
  proc_status :: string

record completed =
  returncode :: int
  stdout :: string

text \<open>
  The host as one check cycle observes it: what each call into \<^verbatim>\<open>psutil\<close> and
  \<^verbatim>\<open>os\<close> returns or raises. \<^verbatim>\<open>psutil.cpu_count()\<close> may return \<^verbatim>\<open>None\<close>. An entry
  of \<open>process_iter\<close> is the process's attributes, or the exception that reading them
  raises. The clock (\<^verbatim>\<open>time.time()\<close>) is not part of the host: the checks take it as
  an argument of its own.
\<close>

record host =
  disk_partitions :: "exn + sdiskpart list"
  disk_usage :: "string \<Rightarrow> exn + sdiskusage"
  virtual_memory :: "exn + svmem"
  cpu_count :: "nat option"
  getloadavg :: "exn + rat \<times> rat \<times> rat"
  cpu_percent :: "exn + rat"
  process_iter :: "exn + (exn + procinfo) list"
  swap_memory :: "exn + sswap"
  path_exists :: "string \<Rightarrow> bool"
  getmtime :: "string \<Rightarrow> exn + rat"
  read_text :: "string \<Rightarrow> exn + string"

text \<open>
  \<^verbatim>\<open>subprocess.run\<close>: running a command on a host raises or completes, and leaves the
  host changed. What the external programs do is not the daemon's code, so the runner
  is a parameter of every function that starts a process. A check only reads the
  outcome of its commands (\<open>query\<close>); a repair threads the changed host through.
\<close>

type_synonym runner = "cmd \<Rightarrow> host \<Rightarrow> (exn + completed) \<times> host"

definition query :: "runner \<Rightarrow> cmd \<Rightarrow> host \<Rightarrow> exn + completed" where
  "query run c h = fst (run c h)"

section \<open>health\_monitor.py\<close>

definition DISK_USAGE_THRESHOLD :: rat where "DISK_USAGE_THRESHOLD = 90"
definition MEMORY_USAGE_THRESHOLD :: rat where "MEMORY_USAGE_THRESHOLD = 90"
definition CPU_USAGE_THRESHOLD :: rat where "CPU_USAGE_THRESHOLD = 90"
definition LOAD_THRESHOLD_FACTOR :: rat where "LOAD_THRESHOLD_FACTOR = 3 / 2"
definition INODE_USAGE_THRESHOLD :: int where "INODE_USAGE_THRESHOLD = 90"
definition SWAP_USAGE_THRESHOLD :: rat where "SWAP_USAGE_THRESHOLD = 80"

text \<open>\<^verbatim>\<open>any(x in mountpoint for x in ['/boot', '/dev', '/proc', '/sys'])\<close>\<close>

definition special_fs :: "string \<Rightarrow> bool" where
  "special_fs mp = list_ex (\<lambda>x. str_in x mp) [''/boot'', ''/dev'', ''/proc'', ''/sys'']"

definition gb :: "pylib \<Rightarrow> int \<Rightarrow> pyval" where
  "gb py n = PFloat (round2 py (of_int n / 1024 ^ 3))"

text \<open>
  The loop of \<^verbatim>\<open>_check_disk_usage\<close> over the partitions. The whole loop stands in one
  \<^verbatim>\<open>try\<close>: an exception of \<^verbatim>\<open>psutil.disk_usage\<close> ends it, and the issues appended
  before are returned.
\<close>

fun disk_usage_loop :: "pylib \<Rightarrow> host \<Rightarrow> sdiskpart list \<Rightarrow> Issue list" where
  "disk_usage_loop py h [] = []"
| "disk_usage_loop py h (p # ps) =
     (if fstype p \<noteq> [] \<and> \<not> special_fs (mountpoint p) then
        (case disk_usage h (mountpoint p) of
           Inl e \<Rightarrow> []
         | Inr usage \<Rightarrow>
             (if du_percent usage \<ge> DISK_USAGE_THRESHOLD then
                [\<lparr>id' = ''disk_usage_'' @ replace (mountpoint p) ''/'' ''_'',
                  severity = (if du_percent usage \<ge> 95 then ''high'' else ''medium''),
                  description = ''Disk usage at '' @ str_float py (du_percent usage)
                                @ ''% on '' @ mountpoint p,
                  component = ''disk'',
                  data = [(''mountpoint'', PStr (mountpoint p)),
                          (''usage_percent'', PFloat (du_percent usage)),
                          (''total_gb'', gb py (du_total usage)),
                          (''free_gb'', gb py (du_free usage))]\<rparr>]
              else [])
             @ disk_usage_loop py h ps)
      else disk_usage_loop py h ps)"

definition check_disk_usage :: "pylib \<Rightarrow> host \<Rightarrow> Issue list" where
  "check_disk_usage py h =
     (case disk_partitions h of
        Inl e \<Rightarrow> []
      | Inr partitions \<Rightarrow> disk_usage_loop py h partitions)"

definition check_memory_usage :: "pylib \<Rightarrow> host \<Rightarrow> Issue list" where
  "check_memory_usage py h =
     (case virtual_memory h of
        Inl e \<Rightarrow> []
      | Inr memory \<Rightarrow>
          (if vm_percent memory \<ge> MEMORY_USAGE_THRESHOLD then
             [\<lparr>id' = ''high_memory_usage'',
               severity = (if vm_percent memory \<ge> 95 then ''high'' else ''medium''),
               description = ''Memory usage at '' @ str_float py (vm_percent memory) @ ''%'',
               component = ''memory'',
               data = [(''usage_percent'', PFloat (vm_percent memory)),
                       (''total_gb'', gb py (vm_total memory)),
                       (''available_gb'', gb py (vm_available memory))]\<rparr>]
           else []))"

text \<open>
  \<^verbatim>\<open>_check_cpu_load\<close>: the load average against \<^verbatim>\<open>cpu_count * LOAD_THRESHOLD_FACTOR\<close>,
  then the CPU percentage. The factor 1.5 and the products \<^verbatim>\<open>cpu_count * 1.5\<close> and
  \<^verbatim>\<open>threshold * 1.5\<close> are exact in binary floating point for every core count below
  \<open>2 ^ 50\<close>, so the rational products are the floats the source compares. \<^verbatim>\<open>os.getloadavg()\<close> may raise; a \<^verbatim>\<open>cpu_count\<close> of
  \<^verbatim>\<open>None\<close> makes the product raise \<^verbatim>\<open>TypeError\<close>; both before any issue exists. An
  exception of \<^verbatim>\<open>psutil.cpu_percent\<close> comes after the load issue was appended, which
  is then still returned.
\<close>

definition load_issue ::
  "pylib \<Rightarrow> nat \<Rightarrow> rat \<Rightarrow> rat \<Rightarrow> rat \<Rightarrow> rat \<Rightarrow> Issue list" where
  "load_issue py n threshold load1 load5 load15 =
     (if load1 > threshold then
        [\<lparr>id' = ''high_cpu_load'',
          severity = (if load1 > threshold * (3 / 2) then ''high'' else ''medium''),
          description = ''High CPU load: '' @ fmt_2f py load1
                        @ '' (threshold: '' @ fmt_2f py threshold @ '')'',
          component = ''cpu'',
          data = [(''load1'', PFloat load1), (''load5'', PFloat load5),
                  (''load15'', PFloat load15), (''cpu_count'', PInt (int n)),
                  (''threshold'', PFloat threshold)]\<rparr>]
      else [])"

definition usage_issue :: "pylib \<Rightarrow> rat \<Rightarrow> Issue list" where
  "usage_issue py pct =
     (if pct \<ge> CPU_USAGE_THRESHOLD then
        [\<lparr>id' = ''high_cpu_usage'',
          severity = (if pct \<ge> 95 then ''high'' else ''medium''),
          description = ''CPU usage at '' @ str_float py pct @ ''%'',
          component = ''cpu'',
          data = [(''usage_percent'', PFloat pct)]\<rparr>]
      else [])"

definition check_cpu_load :: "pylib \<Rightarrow> host \<Rightarrow> Issue list" where
  "check_cpu_load py h =
     (case getloadavg h of
        Inl e \<Rightarrow> []
      | Inr (load1, load5, load15) \<Rightarrow>
          (case cpu_count h of
             None \<Rightarrow> []
           | Some n \<Rightarrow>
               (let threshold = of_nat n * LOAD_THRESHOLD_FACTOR;
                    issues = load_issue py n threshold load1 load5 load15
                in case cpu_percent h of
                     Inl e \<Rightarrow> issues
                   | Inr pct \<Rightarrow> issues @ usage_issue py pct)))"

text \<open>
  \<^verbatim>\<open>_check_zombie_processes\<close>: the inner handler passes over a process whose
  attributes raise \<^verbatim>\<open>NoSuchProcess\<close> or \<^verbatim>\<open>AccessDenied\<close>; any other exception
  leaves the loop for the outer handler, before an issue exists.
\<close>

definition STATUS_ZOMBIE :: string where "STATUS_ZOMBIE = ''zombie''"

fun collect_zombies :: "(exn + procinfo) list \<Rightarrow> exn + procinfo list" where
  "collect_zombies [] = Inr []"
| "collect_zombies (Inl e # ps) =
     (if exn_class e = ''NoSuchProcess'' \<or> exn_class e = ''AccessDenied''
      then collect_zombies ps else Inl e)"
| "collect_zombies (Inr p # ps) =
     (case collect_zombies ps of
        Inl e \<Rightarrow> Inl e
      | Inr zs \<Rightarrow> Inr (if proc_status p = STATUS_ZOMBIE then p # zs else zs))"

definition zombie_entry :: "procinfo \<Rightarrow> pyval" where
  "zombie_entry p = PDict [(''pid'', PInt (proc_pid p)), (''name'', PStr (proc_name p))]"

definition check_zombie_processes :: "host \<Rightarrow> Issue list" where
  "check_zombie_processes h =
     (case process_iter h of
        Inl e \<Rightarrow> []
      | Inr procs \<Rightarrow>
          (case collect_zombies procs of
             Inl e \<Rightarrow> []
           | Inr zombies \<Rightarrow>
               (if zombies \<noteq> [] then
                  [\<lparr>id' = ''zombie_processes'',
                    severity = (if length zombies > 10 then ''medium'' else ''low''),
                    description = ''Found '' @ str_nat (length zombies) @ '' zombie processes'',
                    component = ''process'',
                    data = [(''count'', PInt (int (length zombies))),
                            (''zombies'', PList (map zombie_entry (take 10 zombies)))]\<rparr>]
                else [])))"

text \<open>
  \<^verbatim>\<open>_check_inode_usage\<close> reads the lines of \<^verbatim>\<open>df -i\<close> after the header. A line of
  fewer than five fields is passed over, and so is a percentage that \<^verbatim>\<open>int\<close> refuses
  (\<^verbatim>\<open>ValueError\<close>).
\<close>

fun inode_loop :: "string list \<Rightarrow> Issue list" where
  "inode_loop [] = []"
| "inode_loop (line # lines) =
     (let parts = split_ws line in
      if length parts \<ge> 5 then
        (let filesystem = parts ! 0;
             inodes_used_percent = rstrip (parts ! 4) ''%'';
             mp = (if length parts \<ge> 6 then parts ! 5 else parts ! 4)
         in if special_fs mp then inode_loop lines
            else (case py_int inodes_used_percent of
                    Inl e \<Rightarrow> inode_loop lines
                  | Inr inode_percent \<Rightarrow>
                      (if inode_percent \<ge> INODE_USAGE_THRESHOLD then
                         [\<lparr>id' = ''inode_usage_'' @ replace mp ''/'' ''_'',
                           severity = (if inode_percent \<ge> 95 then ''high'' else ''medium''),
                           description = ''Inode usage at '' @ str_int inode_percent
                                         @ ''% on '' @ mp,
                           component = ''disk'',
                           data = [(''mountpoint'', PStr mp),
                                   (''usage_percent'', PInt inode_percent),
                                   (''filesystem'', PStr filesystem)]\<rparr>]
                       else [])
                      @ inode_loop lines))
      else inode_loop lines)"

definition check_inode_usage :: "runner \<Rightarrow> host \<Rightarrow> Issue list" where
  "check_inode_usage run h =
     (case query run (Argv [''df'', ''-i'']) h of
        Inl e \<Rightarrow> []
      | Inr result \<Rightarrow>
          (if returncode result = 0
           then inode_loop (tl (split_on (CHR 0x0A) (strip (stdout result))))
           else []))"

definition check_swap_usage :: "pylib \<Rightarrow> host \<Rightarrow> Issue list" where
  "check_swap_usage py h =
     (case swap_memory h of
        Inl e \<Rightarrow> []
      | Inr swap \<Rightarrow>
          (if sw_total swap > 0 \<and> sw_percent swap \<ge> SWAP_USAGE_THRESHOLD then
             [\<lparr>id' = ''high_swap_usage'',
               severity = (if sw_percent swap \<ge> 95 then ''high'' else ''medium''),
               description = ''Swap usage at '' @ str_float py (sw_percent swap) @ ''%'',
               component = ''memory'',
               data = [(''usage_percent'', PFloat (sw_percent swap)),
                       (''total_gb'', gb py (sw_total swap)),
                       (''used_gb'', gb py (sw_used swap))]\<rparr>]
           else []))"

definition check_system_updates :: "runner \<Rightarrow> host \<Rightarrow> Issue list" where
  "check_system_updates run h =
     (case query run (Argv [''apt'', ''list'', ''--upgradable'']) h of
        Inl e \<Rightarrow> []
      | Inr result \<Rightarrow>
          (if returncode result = 0 \<and> \<not> str_in ''Listing...'' (stdout result) then
             (let updates = split_on (CHR 0x0A) (strip (stdout result)) in
              if updates \<noteq> [] then
                [\<lparr>id' = ''system_updates_available'',
                  severity = ''low'',
                  description = str_nat (length updates) @ '' system updates available'',
                  component = ''system'',
                  data = [(''count'', PInt (int (length updates))),
                          (''updates'', PList (map PStr (take 10 updates)))]\<rparr>]
              else [])
           else []))"

text \<open>
  \<^verbatim>\<open>check_health\<close> runs the sub-checks in the source's order. It also stores the list
  in the module's global \<^verbatim>\<open>_health_issues\<close>; the globals of the two monitors are the
  daemon's state.
\<close>

record daemon =
  health_issues :: "Issue list"
  security_issues :: "Issue list"

definition health_checks :: "pylib \<Rightarrow> runner \<Rightarrow> host \<Rightarrow> Issue list" where
  "health_checks py run h =
     check_disk_usage py h @ check_memory_usage py h @ check_cpu_load py h
     @ check_zombie_processes h @ check_inode_usage run h @ check_swap_usage py h
     @ check_system_updates run h"

definition check_health :: "pylib \<Rightarrow> runner \<Rightarrow> host \<Rightarrow> daemon \<Rightarrow> Issue list \<times> daemon" where
  "check_health py run h st =
     (let issues = health_checks py run h in (issues, st\<lparr>health_issues := issues\<rparr>))"

section \<open>security\_monitor.py\<close>

text \<open>
  \<^verbatim>\<open>_check_failed_logins\<close> and \<^verbatim>\<open>_check_sudo_usage\<close> count lines of the
  authentication log with a shell pipeline; \<^verbatim>\<open>int\<close> of its output may raise.
\<close>

definition check_failed_logins :: "runner \<Rightarrow> host \<Rightarrow> Issue list" where
  \<open>check_failed_logins run h =
     (case query run (Shell ''grep 'Failed password' /var/log/auth.log | wc -l'') h of
        Inl e \<Rightarrow> []
      | Inr result \<Rightarrow>
          (if returncode result = 0 then
             (case py_int (strip (stdout result)) of
                Inl e \<Rightarrow> []
              | Inr count \<Rightarrow>
                  (if count > 10 then
                     [\<lparr>id' = ''failed_login_attempts'',
                       severity = (if count > 50 then ''high'' else ''medium''),
                       description = ''Detected '' @ str_int count @ '' failed login attempts'',
                       component = ''authentication'',
                       data = [(''count'', PInt count)]\<rparr>]
                   else []))
           else []))\<close>

definition check_sudo_usage :: "runner \<Rightarrow> host \<Rightarrow> Issue list" where
  \<open>check_sudo_usage run h =
     (case query run (Shell ''grep 'authentication failure' /var/log/auth.log | grep sudo | wc -l'') h of
        Inl e \<Rightarrow> []
      | Inr result \<Rightarrow>
          (if returncode result = 0 then
             (case py_int (strip (stdout result)) of
                Inl e \<Rightarrow> []
              | Inr count \<Rightarrow>
                  (if count > 5 then
                     [\<lparr>id' = ''unauthorized_sudo_usage'',
                       severity = (if count > 20 then ''high'' else ''medium''),
                       description = ''Detected '' @ str_int count @ '' unauthorized sudo attempts'',
                       component = ''authentication'',
                       data = [(''count'', PInt count)]\<rparr>]
                   else []))
           else []))\<close>

text \<open>
  \<^verbatim>\<open>re.findall(r':(\d+)\s', text)\<close>: at a colon, the longest run of digits after it is
  a match when it is not empty and a whitespace character follows (a shorter run is
  followed by a digit, so backtracking finds nothing more); the search goes on after
  the whitespace character. Where the colon starts no match, the search goes on at the
  next character.
\<close>

function findall_ports :: "string \<Rightarrow> string list" where
  "findall_ports [] = []"
| "findall_ports (c # cs) =
     (if c = CHR '':'' then
        (case dropWhile isdigit cs of
           [] \<Rightarrow> findall_ports cs
         | r # rest \<Rightarrow>
             (if takeWhile isdigit cs \<noteq> [] \<and> isspace r
              then takeWhile isdigit cs # findall_ports rest
              else findall_ports cs))
      else findall_ports cs)"
  by pat_completeness auto
termination
proof (relation "measure length")
  fix c :: char and cs :: string and r :: char and rest :: string
  assume "dropWhile isdigit cs = r # rest"
  then have "length (r # rest) \<le> length cs"
    using length_dropWhile_le [of isdigit cs] by simp
  then show "(rest, c # cs) \<in> measure length" by simp
qed auto

definition allowed_ports :: "int set" where
  "allowed_ports = {22, 80, 443, 3306, 5432, 8000, 8080}"

text \<open>The loop of \<^verbatim>\<open>_check_open_ports\<close> over the matched port strings; the id carries
  the matched text, the allow-list is asked for its number.\<close>

fun open_ports_loop :: "string list \<Rightarrow> Issue list" where
  "open_ports_loop [] = []"
| "open_ports_loop (port # ports) =
     (case py_int port of
        Inl e \<Rightarrow> []
      | Inr port_num \<Rightarrow>
          (if port_num \<notin> allowed_ports then
             [\<lparr>id' = ''unexpected_open_port_'' @ port,
               severity = ''medium'',
               description = ''Unexpected open port: '' @ port,
               component = ''network'',
               data = [(''port'', PInt port_num)]\<rparr>]
           else [])
          @ open_ports_loop ports)"

definition check_open_ports :: "runner \<Rightarrow> host \<Rightarrow> Issue list" where
  "check_open_ports run h =
     (case query run (Shell ''ss -tuln | grep LISTEN'') h of
        Inl e \<Rightarrow> []
      | Inr result \<Rightarrow>
          (if returncode result = 0
           then open_ports_loop (findall_ports (stdout result))
           else []))"

definition suspicious_names :: "string list" where
  "suspicious_names =
     [''nc'', ''netcat'', ''ncat'', ''nmap'', ''hydra'', ''medusa'', ''wireshark'',
      ''tcpdump'', ''metasploit'', ''backdoor'', ''rootkit'']"

definition suspicious_matches :: "string \<Rightarrow> string list \<Rightarrow> Issue list" where
  "suspicious_matches suspicious processes =
     concat (map (\<lambda>process.
       if str_in (lower suspicious) (lower process) then
         [\<lparr>id' = ''suspicious_process_'' @ suspicious,
           severity = ''high'',
           description = ''Suspicious process detected: '' @ process,
           component = ''process'',
           data = [(''process_name'', PStr process)]\<rparr>]
       else []) processes)"

definition check_suspicious_processes :: "runner \<Rightarrow> host \<Rightarrow> Issue list" where
  "check_suspicious_processes run h =
     (case query run (Shell ''ps -eo comm'') h of
        Inl e \<Rightarrow> []
      | Inr result \<Rightarrow>
          (if returncode result = 0 then
             (let processes = split_on (CHR 0x0A) (strip (stdout result)) in
              concat (map (\<lambda>suspicious. suspicious_matches suspicious processes)
                        suspicious_names))
           else []))"

definition critical_files :: "string list" where
  "critical_files =
     [''/bin/bash'', ''/bin/sh'', ''/bin/ls'', ''/bin/login'', ''/bin/su'',
      ''/usr/bin/sudo'', ''/etc/passwd'', ''/etc/shadow'', ''/etc/ssh/sshd_config'']"

text \<open>
  \<^verbatim>\<open>_check_modified_system_files\<close> reads \<^verbatim>\<open>time.time()\<close> once for each file that
  exists: \<open>clock f\<close> is the reading taken for the file \<open>f\<close>. An exception of
  \<^verbatim>\<open>os.path.getmtime\<close> ends the loop with the issues found so far.
\<close>

type_synonym clock = "string \<Rightarrow> rat"

fun modified_files_loop :: "pylib \<Rightarrow> clock \<Rightarrow> host \<Rightarrow> string list \<Rightarrow> Issue list" where
  "modified_files_loop py clock h [] = []"
| "modified_files_loop py clock h (file_path # files) =
     (if path_exists h file_path then
        (case getmtime h file_path of
           Inl e \<Rightarrow> []
         | Inr mtime \<Rightarrow>
             (if clock file_path - mtime < 86400 then
                [\<lparr>id' = ''modified_system_file_'' @ basename file_path,
                  severity = ''high'',
                  description = ''Recently modified system file: '' @ file_path,
                  component = ''filesystem'',
                  data = [(''file_path'', PStr file_path),
                          (''modified_time'', PStr (ctime py mtime))]\<rparr>]
              else [])
             @ modified_files_loop py clock h files)
      else modified_files_loop py clock h files)"

definition check_modified_system_files :: "pylib \<Rightarrow> clock \<Rightarrow> host \<Rightarrow> Issue list" where
  "check_modified_system_files py clock h = modified_files_loop py clock h critical_files"

definition ssh_config_path :: string where
  "ssh_config_path = ''/etc/ssh/sshd_config''"

definition check_ssh_config :: "host \<Rightarrow> Issue list" where
  "check_ssh_config h =
     (if path_exists h ssh_config_path then
        (case read_text h ssh_config_path of
           Inl e \<Rightarrow> []
         | Inr config \<Rightarrow>
             (if str_in ''PermitRootLogin yes'' config then
                [\<lparr>id' = ''ssh_root_login_enabled'',
                  severity = ''high'',
                  description = ''SSH root login is enabled'',
                  component = ''ssh'',
                  data = [(''config_file'', PStr ssh_config_path)]\<rparr>]
              else [])
             @ (if str_in ''PasswordAuthentication yes'' config then
                  [\<lparr>id' = ''ssh_password_auth_enabled'',
                    severity = ''medium'',
                    description = ''SSH password authentication is enabled'',
                    component = ''ssh'',
                    data = [(''config_file'', PStr ssh_config_path)]\<rparr>]
                else []))
      else [])"

text \<open>The two shell lines of \<^verbatim>\<open>_check_firewall_status\<close> (each ends in a quote
  character, 0x27).\<close>

definition ufw_status_cmd :: string where
  "ufw_status_cmd = ''ufw status | grep -q 'Status: active'' @ [CHR 0x27]"

definition iptables_list_cmd :: string where
  "iptables_list_cmd = ''iptables -L | grep -q 'Chain INPUT'' @ [CHR 0x27]"

definition check_firewall_status :: "runner \<Rightarrow> host \<Rightarrow> Issue list" where
  "check_firewall_status run h =
     (case query run (Shell ufw_status_cmd) h of
        Inl e \<Rightarrow> []
      | Inr result \<Rightarrow>
          (if returncode result \<noteq> 0 then
             (case query run (Shell iptables_list_cmd) h of
                Inl e \<Rightarrow> []
              | Inr result2 \<Rightarrow>
                  (if returncode result2 \<noteq> 0 then
                     [\<lparr>id' = ''firewall_disabled'',
                       severity = ''high'',
                       description = ''Firewall appears to be disabled'',
                       component = ''network'',
                       data = []\<rparr>]
                   else []))
           else []))"

definition security_checks :: "pylib \<Rightarrow> runner \<Rightarrow> clock \<Rightarrow> host \<Rightarrow> Issue list" where
  "security_checks py run clock h =
     check_failed_logins run h @ check_sudo_usage run h @ check_open_ports run h
     @ check_suspicious_processes run h @ check_modified_system_files py clock h
     @ check_ssh_config h @ check_firewall_status run h"

definition check_security ::
  "pylib \<Rightarrow> runner \<Rightarrow> clock \<Rightarrow> host \<Rightarrow> daemon \<Rightarrow> Issue list \<times> daemon" where
  "check_security py run clock h st =
     (let issues = security_checks py run clock h in (issues, st\<lparr>security_issues := issues\<rparr>))"

section \<open>auto\_repair.py\<close>

text \<open>
  A repair step runs on a host and raises or returns, leaving the host changed.
  \<open>andthen\<close> is sequencing inside one \<^verbatim>\<open>try\<close> block: an exception skips the rest.
  \<open>run_check\<close> is \<^verbatim>\<open>subprocess.run(..., check=True)\<close>; the plain runner is
  \<^verbatim>\<open>check=False\<close>, which can still raise (a missing program, for one).
\<close>

type_synonym 'a action = "host \<Rightarrow> (exn + 'a) \<times> host"

definition andthen :: "'a action \<Rightarrow> ('a \<Rightarrow> 'b action) \<Rightarrow> 'b action" where
  "andthen m f h = (case m h of (Inl e, h') \<Rightarrow> (Inl e, h') | (Inr a, h') \<Rightarrow> f a h')"

definition finish :: "'a \<Rightarrow> 'a action" where
  "finish a h = (Inr a, h)"

definition run_check :: "pylib \<Rightarrow> runner \<Rightarrow> cmd \<Rightarrow> completed action" where
  "run_check py run c h =
     (case run c h of
        (Inl e, h') \<Rightarrow> (Inl e, h')
      | (Inr r, h') \<Rightarrow>
          (if returncode r \<noteq> 0 then (Inl (called_process_error py c (returncode r)), h')
           else (Inr r, h')))"

text \<open>The \<^verbatim>\<open>except Exception as e\<close> of a handler: the failed result built from the
  exception.\<close>

definition catch :: "'a action \<Rightarrow> (exn \<Rightarrow> 'a) \<Rightarrow> host \<Rightarrow> 'a \<times> host" where
  "catch m handler h = (case m h of (Inl e, h') \<Rightarrow> (handler e, h') | (Inr a, h') \<Rightarrow> (a, h'))"

text \<open>
  The loops that send \<^verbatim>\<open>kill\<close> to each pid, each call in a \<^verbatim>\<open>try\<close> of its own
  whose handler only logs.
\<close>

fun kill_each :: "runner \<Rightarrow> string list \<Rightarrow> host \<Rightarrow> host" where
  "kill_each run [] h = h"
| "kill_each run (pid # pids) h = kill_each run pids (snd (run (Argv [''kill'', pid]) h))"

subsection \<open>\_repair\_disk\_usage\<close>

definition disk_mountpoint :: "string \<Rightarrow> string" where
  "disk_mountpoint issue_id =
     (let mountpoint = replace (replace issue_id ''disk_usage_'' []) ''_'' ''/''
      in if \<not> startswith mountpoint ''/'' then ''/'' @ mountpoint else mountpoint)"

definition clean_package_cache :: "pylib \<Rightarrow> runner \<Rightarrow> unit action" where
  "clean_package_cache py run h =
     (if path_exists h ''/usr/bin/apt'' then
        andthen (run_check py run (Argv [''apt-get'', ''clean'']))
          (\<lambda>_. andthen (run_check py run (Argv [''apt-get'', ''autoremove'', ''-y'']))
          (\<lambda>_. finish ())) h
      else if path_exists h ''/usr/bin/yum'' then
        andthen (run_check py run (Argv [''yum'', ''clean'', ''all''])) (\<lambda>_. finish ()) h
      else finish () h)"

definition remove_old_logs :: "runner \<Rightarrow> unit action" where
  \<open>remove_old_logs run =
     andthen (run (Shell ''find /var/log -type f -name "*.gz" -delete''))
       (\<lambda>_. andthen (run (Shell ''find /var/log -type f -name "*.1" -delete''))
       (\<lambda>_. finish ()))\<close>

definition remove_temp_files :: "runner \<Rightarrow> string \<Rightarrow> unit action" where
  "remove_temp_files run temp_dir h =
     (if path_exists h temp_dir then
        andthen (run (Shell (''find '' @ temp_dir @ '' -type f -atime +7 -delete'')))
          (\<lambda>_. finish ()) h
      else finish () h)"

definition repair_disk_usage_try :: "pylib \<Rightarrow> runner \<Rightarrow> string \<Rightarrow> RepairResult action" where
  "repair_disk_usage_try py run issue_id =
     (let mountpoint = disk_mountpoint issue_id in
      andthen (if mountpoint = ''/''
               then andthen (clean_package_cache py run) (\<lambda>_. remove_old_logs run)
               else finish ())
        (\<lambda>_. andthen (remove_temp_files run ''/tmp'')
        (\<lambda>_. andthen (remove_temp_files run ''/var/tmp'')
        (\<lambda>_. finish \<lparr>id' = issue_id, success = True,
                       message = ''Cleaned up disk space on '' @ mountpoint\<rparr>))))"

definition repair_disk_usage :: "pylib \<Rightarrow> runner \<Rightarrow> string \<Rightarrow> host \<Rightarrow> RepairResult \<times> host" where
  "repair_disk_usage py run issue_id =
     catch (repair_disk_usage_try py run issue_id)
       (\<lambda>e. \<lparr>id' = issue_id, success = False,
              message = ''Failed to clean up disk space: '' @ exn_msg e\<rparr>)"

subsection \<open>\_repair\_cpu\_usage and \_repair\_memory\_usage\<close>

text \<open>
  Both handlers read the lines of \<^verbatim>\<open>ps aux\<close> after the header and keep the pid
  (field 1) of every line with more than \<open>col\<close> fields whose field \<open>col\<close>, read by
  \<^verbatim>\<open>float\<close>, is above \<open>limit\<close>: field 2 above 90 for the CPU, field 3 above 80
  for the memory. \<^verbatim>\<open>float\<close> may raise, which leaves the loop.
\<close>

fun high_usage_pids :: "pylib \<Rightarrow> nat \<Rightarrow> rat \<Rightarrow> string list \<Rightarrow> exn + string list" where
  "high_usage_pids py col limit [] = Inr []"
| "high_usage_pids py col limit (line # lines) =
     (let parts = split_ws line in
      if length parts \<ge> col + 1 then
        (case float_of_str py (parts ! col) of
           Inl e \<Rightarrow> Inl e
         | Inr pct \<Rightarrow>
             (case high_usage_pids py col limit lines of
                Inl e \<Rightarrow> Inl e
              | Inr pids \<Rightarrow> Inr (if pct > limit then (parts ! 1) # pids else pids)))
      else high_usage_pids py col limit lines)"

definition repair_cpu_usage_try :: "pylib \<Rightarrow> runner \<Rightarrow> RepairResult action" where
  "repair_cpu_usage_try py run =
     andthen (run_check py run (Shell ''ps aux --sort=-%cpu | head -11''))
       (\<lambda>result h.
          case high_usage_pids py 2 90 (tl (splitlines (stdout result))) of
            Inl e \<Rightarrow> (Inl e, h)
          | Inr high_cpu_pids \<Rightarrow>
              (if high_cpu_pids \<noteq> [] then
                 (Inr \<lparr>id' = ''cpu_usage_high'', success = True,
                       message = ''Terminated '' @ str_nat (length high_cpu_pids)
                                 @ '' high CPU processes''\<rparr>,
                  kill_each run high_cpu_pids h)
               else
                 (Inr \<lparr>id' = ''cpu_usage_high'', success = False,
                       message = ''No runaway processes found to terminate''\<rparr>, h)))"

definition repair_cpu_usage :: "pylib \<Rightarrow> runner \<Rightarrow> host \<Rightarrow> RepairResult \<times> host" where
  "repair_cpu_usage py run =
     catch (repair_cpu_usage_try py run)
       (\<lambda>e. \<lparr>id' = ''cpu_usage_high'', success = False,
              message = ''Failed to repair CPU usage: '' @ exn_msg e\<rparr>)"

definition repair_memory_usage_try :: "pylib \<Rightarrow> runner \<Rightarrow> RepairResult action" where
  "repair_memory_usage_try py run =
     andthen (run_check py run (Shell ''ps aux --sort=-%mem | head -11''))
       (\<lambda>result. andthen (run (Shell ''sync && echo 3 > /proc/sys/vm/drop_caches''))
       (\<lambda>_ h.
          case high_usage_pids py 3 80 (tl (splitlines (stdout result))) of
            Inl e \<Rightarrow> (Inl e, h)
          | Inr high_mem_pids \<Rightarrow>
              (if high_mem_pids \<noteq> [] then
                 (Inr \<lparr>id' = ''memory_usage_high'', success = True,
                       message = ''Terminated '' @ str_nat (length high_mem_pids)
                                 @ '' high memory processes and cleared caches''\<rparr>,
                  kill_each run high_mem_pids h)
               else
                 (Inr \<lparr>id' = ''memory_usage_high'', success = True,
                       message = ''Cleared system caches''\<rparr>, h))))"

definition repair_memory_usage :: "pylib \<Rightarrow> runner \<Rightarrow> host \<Rightarrow> RepairResult \<times> host" where
  "repair_memory_usage py run =
     catch (repair_memory_usage_try py run)
       (\<lambda>e. \<lparr>id' = ''memory_usage_high'', success = False,
              message = ''Failed to repair memory usage: '' @ exn_msg e\<rparr>)"

subsection \<open>\_repair\_ssh\_brute\_force\<close>

definition persist_rules :: "runner \<Rightarrow> unit action" where
  "persist_rules run h =
     (if path_exists h ''/usr/bin/iptables-save'' then
        (if path_exists h ''/etc/iptables/rules.v4''
         then andthen (run (Shell ''iptables-save > /etc/iptables/rules.v4'')) (\<lambda>_. finish ()) h
         else andthen (run (Shell ''iptables-save > /etc/iptables.rules'')) (\<lambda>_. finish ()) h)
      else finish () h)"

definition repair_ssh_brute_force_try :: "pylib \<Rightarrow> runner \<Rightarrow> string \<Rightarrow> RepairResult action" where
  "repair_ssh_brute_force_try py run issue_id =
     (let ip = replace (replace issue_id ''ssh_brute_force_'' []) ''_'' ''.'' in
      if \<not> inet_aton_ok py ip then
        finish \<lparr>id' = issue_id, success = False, message = ''Invalid IP address: '' @ ip\<rparr>
      else
        andthen (run_check py run (Shell (''iptables -A INPUT -s '' @ ip @ '' -j DROP'')))
          (\<lambda>_. andthen (persist_rules run)
          (\<lambda>_. finish \<lparr>id' = issue_id, success = True,
                         message = ''Blocked IP '' @ ip @ '' using iptables''\<rparr>)))"

definition repair_ssh_brute_force ::
  "pylib \<Rightarrow> runner \<Rightarrow> string \<Rightarrow> host \<Rightarrow> RepairResult \<times> host" where
  "repair_ssh_brute_force py run issue_id =
     catch (repair_ssh_brute_force_try py run issue_id)
       (\<lambda>e. \<lparr>id' = issue_id, success = False,
              message = ''Failed to block IP: '' @ exn_msg e\<rparr>)"

subsection \<open>\_repair\_open\_port\<close>

definition repair_open_port_try :: "runner \<Rightarrow> string \<Rightarrow> RepairResult action" where
  "repair_open_port_try run issue_id =
     (let port = replace issue_id ''unexpected_open_port_'' [];
          not_found = \<lparr>id' = issue_id, success = False,
                       message = ''Could not close port '' @ port
                                 @ '': no process found or failed to terminate''\<rparr>
      in andthen (run (Shell (''lsof -i :'' @ port @ '' | grep LISTEN'')))
           (\<lambda>result.
              if returncode result = 0 \<and> stdout result \<noteq> [] then
                (case split_on (CHR 0x0A) (strip (stdout result)) of
                   [] \<Rightarrow> finish not_found
                 | first_line # _ \<Rightarrow>
                     (let parts = split_ws first_line in
                      if length parts > 1 then
                        andthen (run (Argv [''kill'', parts ! 1]))
                          (\<lambda>_. finish \<lparr>id' = issue_id, success = True,
                                         message = ''Closed port '' @ port
                                           @ '' by terminating process '' @ parts ! 0
                                           @ '' (PID '' @ parts ! 1 @ '')''\<rparr>)
                      else finish not_found))
              else finish not_found))"

definition repair_open_port :: "runner \<Rightarrow> string \<Rightarrow> host \<Rightarrow> RepairResult \<times> host" where
  "repair_open_port run issue_id =
     catch (repair_open_port_try run issue_id)
       (\<lambda>e. \<lparr>id' = issue_id, success = False,
              message = ''Failed to close port: '' @ exn_msg e\<rparr>)"

subsection \<open>\_repair\_security\_updates\<close>

definition repair_security_updates_try :: "pylib \<Rightarrow> runner \<Rightarrow> RepairResult action" where
  "repair_security_updates_try py run h =
     (let applied = \<lparr>id' = ''security_updates_available'', success = True,
                     message = ''Applied available security updates''\<rparr>
      in if path_exists h ''/usr/bin/apt'' then
           andthen (run_check py run (Argv [''apt-get'', ''update'']))
             (\<lambda>_. andthen (run_check py run
                      (Argv [''apt-get'', ''upgrade'', ''--only-upgrade'', ''-y'', ''-o'',
                             ''APT::Get::Show-Upgraded=true'']))
             (\<lambda>_. finish applied)) h
         else if path_exists h ''/usr/bin/yum'' then
           andthen (run_check py run (Argv [''yum'', ''update'', ''-y'', ''--security'']))
             (\<lambda>_. finish applied) h
         else if path_exists h ''/usr/bin/dnf'' then
           andthen (run_check py run (Argv [''dnf'', ''upgrade'', ''-y'', ''--security'']))
             (\<lambda>_. finish applied) h
         else if path_exists h ''/usr/bin/pacman'' then
           andthen (run_check py run (Argv [''pacman'', ''-Syuq'', ''--needed'']))
             (\<lambda>_. finish applied) h
         else
           finish \<lparr>id' = ''security_updates_available'', success = False,
                   message = ''No supported package manager found''\<rparr> h)"

definition repair_security_updates :: "pylib \<Rightarrow> runner \<Rightarrow> host \<Rightarrow> RepairResult \<times> host" where
  "repair_security_updates py run =
     catch (repair_security_updates_try py run)
       (\<lambda>e. \<lparr>id' = ''security_updates_available'', success = False,
              message = ''Failed to apply security updates: '' @ exn_msg e\<rparr>)"

subsection \<open>\_repair\_suspicious\_process\<close>

definition repair_suspicious_process_try :: "runner \<Rightarrow> string \<Rightarrow> RepairResult action" where
  "repair_suspicious_process_try run issue_id =
     (let process_name = replace issue_id ''suspicious_process_'' [] in
      andthen (run (Shell (''pgrep '' @ process_name)))
        (\<lambda>result h.
           if returncode result = 0 \<and> stdout result \<noteq> [] then
             (Inr \<lparr>id' = issue_id, success = True,
                   message = ''Terminated suspicious process '' @ process_name\<rparr>,
              kill_each run (split_on (CHR 0x0A) (strip (stdout result))) h)
           else
             (Inr \<lparr>id' = issue_id, success = False,
                   message = ''No suspicious process '' @ process_name @ '' found''\<rparr>, h)))"

definition repair_suspicious_process :: "runner \<Rightarrow> string \<Rightarrow> host \<Rightarrow> RepairResult \<times> host" where
  "repair_suspicious_process run issue_id =
     catch (repair_suspicious_process_try run issue_id)
       (\<lambda>e. \<lparr>id' = issue_id, success = False,
              message = ''Failed to repair suspicious process: '' @ exn_msg e\<rparr>)"

subsection \<open>repair\_issue and repair\_all\<close>

text \<open>
  The dispatcher's \<^verbatim>\<open>try\<close> block: the first branch of the \<^verbatim>\<open>if\<close>/\<^verbatim>\<open>elif\<close> chain
  that matches the id returns its handler's result. \<open>repair_issue\<close> adds the
  dispatcher's own \<^verbatim>\<open>except Exception\<close>.
\<close>

definition returned :: "'a \<times> host \<Rightarrow> (exn + 'a) \<times> host" where
  "returned rh = (Inr (fst rh), snd rh)"

definition repair_issue_try :: "pylib \<Rightarrow> runner \<Rightarrow> string \<Rightarrow> RepairResult action" where
  "repair_issue_try py run issue_id h =
     (if startswith issue_id ''disk_usage_'' then
        returned (repair_disk_usage py run issue_id h)
      else if issue_id = ''cpu_usage_high'' then
        returned (repair_cpu_usage py run h)
      else if issue_id = ''memory_usage_high'' then
        returned (repair_memory_usage py run h)
      else if startswith issue_id ''ssh_brute_force_'' then
        returned (repair_ssh_brute_force py run issue_id h)
      else if startswith issue_id ''unexpected_open_port_'' then
        returned (repair_open_port run issue_id h)
      else if issue_id = ''security_updates_available'' then
        returned (repair_security_updates py run h)
      else if startswith issue_id ''suspicious_process_'' then
        returned (repair_suspicious_process run issue_id h)
      else
        (Inr \<lparr>id' = issue_id, success = False,
              message = ''No repair method available for this issue''\<rparr>, h))"

definition repair_issue :: "pylib \<Rightarrow> runner \<Rightarrow> string \<Rightarrow> host \<Rightarrow> RepairResult \<times> host" where
  "repair_issue py run issue_id =
     catch (repair_issue_try py run issue_id)
       (\<lambda>e. \<lparr>id' = issue_id, success = False,
              message = ''Error during repair: '' @ exn_msg e\<rparr>)"

text \<open>The loop of \<^verbatim>\<open>repair_all\<close>: one \<^verbatim>\<open>repair_issue\<close> for each issue, in order, each
  on the host the one before left.\<close>

fun repair_each :: "pylib \<Rightarrow> runner \<Rightarrow> Issue list \<Rightarrow> host \<Rightarrow> RepairResult list \<times> host" where
  "repair_each py run [] h = ([], h)"
| "repair_each py run (issue # issues) h =
     (case repair_issue py run (id' issue) h of
        (result, h') \<Rightarrow>
          (case repair_each py run issues h' of
             (results, h'') \<Rightarrow> (result # results, h'')))"

definition repair_all ::
  "pylib \<Rightarrow> runner \<Rightarrow> clock \<Rightarrow> host \<Rightarrow> daemon \<Rightarrow> RepairResult list \<times> host \<times> daemon" where
  "repair_all py run clock h st =
     (case check_health py run h st of
        (health, st1) \<Rightarrow>
          (case check_security py run clock h st1 of
             (security, st2) \<Rightarrow>
               (case repair_each py run (health @ security) h of
                  (results, h') \<Rightarrow> (results, h', st2))))"

section \<open>Concrete runtime, runners and hosts for the closed examples\<close>

text \<open>
  A stand-in for the Python runtime, exact on the integral values the examples use:
  floats print as their integral part, \<^verbatim>\<open>float\<close> reads what \<^verbatim>\<open>int\<close> reads, and an
  address is valid when it is four dot-separated runs of digits.
\<close>

definition plain_py :: pylib where
  "plain_py =
     \<lparr>str_float = (\<lambda>r. str_int \<lfloor>r\<rfloor> @ ''.0''),
      fmt_2f = (\<lambda>r. str_int \<lfloor>r\<rfloor> @ ''.00''),
      round2 = (\<lambda>r. r),
      float_of_str = (\<lambda>s. case py_int s of
                            Inl e \<Rightarrow> Inl (Exn ''ValueError'' (''could not convert string to float: '' @ s))
                          | Inr i \<Rightarrow> Inr (of_int i)),
      ctime = (\<lambda>t. str_int \<lfloor>t\<rfloor>),
      inet_aton_ok = (\<lambda>s. length (split_on (CHR ''.'') s) = 4
                          \<and> list_all (\<lambda>p. p \<noteq> [] \<and> list_all isdigit p) (split_on (CHR ''.'') s)),
      called_process_error = (\<lambda>c rc. Exn ''CalledProcessError''
                                (''Command returned non-zero exit status '' @ str_int rc))\<rparr>"

text \<open>
  A runner that answers from a table of commands and leaves the host as it is; a
  command that is not in the table exits with status 127 and no output, as a shell
  does for a program it cannot find.
\<close>

definition scripted :: "(cmd \<times> completed) list \<Rightarrow> runner" where
  "scripted table c h =
     (case map_of table c of
        None \<Rightarrow> (Inr \<lparr>returncode = 127, stdout = []\<rparr>, h)
      | Some r \<Rightarrow> (Inr r, h))"

text \<open>A host at rest: no partitions, little load, no processes, no swap, no files.\<close>

definition idle_host :: host where
  "idle_host =
     \<lparr>disk_partitions = Inr [],
      disk_usage = (\<lambda>_. Inl (Exn ''FileNotFoundError'' ''No such file or directory'')),
      virtual_memory = Inr \<lparr>vm_total = 8589934592, vm_available = 6442450944, vm_percent = 25\<rparr>,
      cpu_count = Some 2,
      getloadavg = Inr (1 / 2, 1 / 2, 1 / 2),
      cpu_percent = Inr 5,
      process_iter = Inr [],
      swap_memory = Inr \<lparr>sw_total = 0, sw_used = 0, sw_percent = 0\<rparr>,
      path_exists = (\<lambda>_. False),
      getmtime = (\<lambda>_. Inl (Exn ''FileNotFoundError'' ''No such file or directory'')),
      read_text = (\<lambda>_. Inl (Exn ''FileNotFoundError'' ''No such file or directory''))\<rparr>"

definition fresh_daemon :: daemon where
  "fresh_daemon = \<lparr>health_issues = [], security_issues = []\<rparr>"

text \<open>The data filesystem of the scenario: \<^verbatim>\<open>/data\<close> on ext4, 96% used.\<close>

definition data_host :: host where
  "data_host =
     idle_host
       \<lparr>disk_partitions := Inr [\<lparr>mountpoint = ''/data'', fstype = ''ext4''\<rparr>],
        disk_usage := (\<lambda>_. Inr \<lparr>du_total = 107374182400, du_free = 4294967296, du_percent = 96\<rparr>)\<rparr>"

text \<open>A host short of memory (96%) and with a saturated CPU (97%).\<close>

definition busy_host :: host where
  "busy_host =
     idle_host
       \<lparr>virtual_memory :=
          Inr \<lparr>vm_total = 8589934592, vm_available = 343597384, vm_percent = 96\<rparr>,
        cpu_percent := Inr 97\<rparr>"

text \<open>
  A runner for the repair examples: \<^verbatim>\<open>ps -eo comm\<close> lists a process \<^verbatim>\<open>nc\<close>, and
  \<^verbatim>\<open>pgrep nc\<close> finds it under pid 4242.
\<close>

definition netcat_runner :: runner where
  "netcat_runner =
     scripted
       [(Shell ''ps -eo comm'', \<lparr>returncode = 0, stdout = ''COMMAND'' @ [CHR 0x0A] @ ''nc'' @ [CHR 0x0A]\<rparr>),
        (Shell ''pgrep nc'', \<lparr>returncode = 0, stdout = ''4242'' @ [CHR 0x0A]\<rparr>)]"

text \<open>Two cores with a one-minute load average of exactly 3 (1.5 per core), and with
  a load average of 4.\<close>

definition boundary_load_host :: host where
  "boundary_load_host = idle_host\<lparr>getloadavg := Inr (3, 3, 3)\<rparr>"

definition loaded_host :: host where
  "loaded_host = idle_host\<lparr>getloadavg := Inr (4, 3, 2)\<rparr>"

text \<open>A process table of exactly ten zombies.\<close>

definition defunct :: procinfo where
  "defunct = \<lparr>proc_pid = 4711, proc_name = ''worker'', proc_status = ''zombie''\<rparr>"

definition zombie_host :: host where
  "zombie_host = idle_host\<lparr>process_iter := Inr (map Inr (replicate 10 defunct))\<rparr>"

text \<open>A host whose SSH daemon configuration permits root logins.\<close>

definition sshd_config_text :: string where
  "sshd_config_text =
     ''Port 22'' @ [CHR 0x0A] @ ''PermitRootLogin yes'' @ [CHR 0x0A]
     @ ''PasswordAuthentication no'' @ [CHR 0x0A]"

definition root_login_host :: host where
  "root_login_host =
     idle_host
       \<lparr>path_exists := (\<lambda>f. f = ''/etc/ssh/sshd_config''),
        getmtime := (\<lambda>_. Inr 0),
        read_text := (\<lambda>_. Inr sshd_config_text)\<rparr>"

text \<open>A runner whose \<^verbatim>\<open>ss\<close> shows two listeners: port 22 and port 9999.\<close>

definition ss_output :: string where
  "ss_output =
     ''tcp   LISTEN 0      128          0.0.0.0:22        0.0.0.0:*'' @ [CHR 0x0A]
     @ ''tcp   LISTEN 0      128             [::]:9999         [::]:*'' @ [CHR 0x0A]"

definition ss_runner :: runner where
  "ss_runner =
     scripted [(Shell ''ss -tuln | grep LISTEN'', \<lparr>returncode = 0, stdout = ss_output\<rparr>)]"

text \<open>A host on which, of the critical files, only \<^verbatim>\<open>/etc/passwd\<close> exists, last
  modified at time 0.\<close>

definition passwd_host :: host where
  "passwd_host =
     idle_host
       \<lparr>path_exists := (\<lambda>f. f = ''/etc/passwd''),
        getmtime := (\<lambda>_. Inr 0)\<rparr>"

text \<open>A data filesystem whose mount point has an underscore in its name, 96% used.\<close>

definition my_data_host :: host where
  "my_data_host =
     idle_host
       \<lparr>disk_partitions := Inr [\<lparr>mountpoint = ''/mnt/my_data'', fstype = ''ext4''\<rparr>],
        disk_usage := (\<lambda>_. Inr \<lparr>du_total = 107374182400, du_free = 4294967296, du_percent = 96\<rparr>)\<rparr>"

text \<open>
  A server with three partitions, in the order of the listing: the EFI partition under
  \<^verbatim>\<open>/boot\<close>, which the check passes over (and which cannot be measured here), the root
  filesystem at 50%, and \<^verbatim>\<open>/data\<close> at 96%.
\<close>

definition server_host :: host where
  "server_host =
     idle_host
       \<lparr>disk_partitions :=
          Inr [\<lparr>mountpoint = ''/boot/efi'', fstype = ''vfat''\<rparr>,
               \<lparr>mountpoint = ''/'', fstype = ''ext4''\<rparr>,
               \<lparr>mountpoint = ''/data'', fstype = ''ext4''\<rparr>],
        disk_usage :=
          (\<lambda>mp. if mp = ''/boot/efi'' then Inl (Exn ''PermissionError'' ''Permission denied'')
                else if mp = ''/'' then
                  Inr \<lparr>du_total = 53687091200, du_free = 26843545600, du_percent = 50\<rparr>
                else Inr \<lparr>du_total = 107374182400, du_free = 4294967296, du_percent = 96\<rparr>)\<rparr>"

text \<open>
  A host on which a stale network mount is listed before \<^verbatim>\<open>/data\<close>:
  \<^verbatim>\<open>psutil.disk_usage\<close> raises for it; \<^verbatim>\<open>/data\<close> itself is at 96%.
\<close>

definition stale_mount_host :: host where
  "stale_mount_host =
     idle_host
       \<lparr>disk_partitions :=
          Inr [\<lparr>mountpoint = ''/mnt/backup'', fstype = ''nfs4''\<rparr>,
               \<lparr>mountpoint = ''/data'', fstype = ''ext4''\<rparr>],
        disk_usage :=
          (\<lambda>mp. if mp = ''/mnt/backup'' then Inl (Exn ''OSError'' ''Stale file handle'')
                else Inr \<lparr>du_total = 107374182400, du_free = 4294967296, du_percent = 96\<rparr>)\<rparr>"

text \<open>
  A host whose SSH daemon configuration permits root logins with the keyword and its
  value separated by a tab, which \<^verbatim>\<open>sshd\<close> reads like a space.
\<close>

definition tabbed_sshd_config_text :: string where
  "tabbed_sshd_config_text =
     ''Port 22'' @ [CHR 0x0A] @ ''PermitRootLogin'' @ [CHR 0x09] @ ''yes'' @ [CHR 0x0A]
     @ ''PasswordAuthentication no'' @ [CHR 0x0A]"

definition tabbed_root_login_host :: host where
  "tabbed_root_login_host =
     idle_host
       \<lparr>path_exists := (\<lambda>f. f = ''/etc/ssh/sshd_config''),
        getmtime := (\<lambda>_. Inr 0),
        read_text := (\<lambda>_. Inr tabbed_sshd_config_text)\<rparr>"

section \<open>The identifiers each sub-check can emit\<close>

lemma disk_usage_loop_ids:
  "i \<in> set (disk_usage_loop py h ps) \<Longrightarrow> \<exists>x. id' i = ''disk_usage_'' @ x"
  by (induction ps) (auto split: sum.splits if_splits)

lemma check_disk_usage_ids:
  "i \<in> set (check_disk_usage py h) \<Longrightarrow> \<exists>x. id' i = ''disk_usage_'' @ x"
  by (auto simp: check_disk_usage_def split: sum.splits dest: disk_usage_loop_ids)

lemma check_memory_usage_ids:
  "i \<in> set (check_memory_usage py h) \<Longrightarrow> id' i = ''high_memory_usage''"
  by (auto simp: check_memory_usage_def split: sum.splits if_splits)

lemma load_issue_ids:
  "i \<in> set (load_issue py n t l1 l5 l15) \<Longrightarrow> id' i = ''high_cpu_load''"
  by (simp add: load_issue_def split: if_splits)

lemma usage_issue_ids:
  "i \<in> set (usage_issue py pct) \<Longrightarrow> id' i = ''high_cpu_usage''"
  by (simp add: usage_issue_def split: if_splits)

lemma check_cpu_load_ids:
  assumes "i \<in> set (check_cpu_load py h)"
  shows "id' i = ''high_cpu_load'' \<or> id' i = ''high_cpu_usage''"
proof (cases "getloadavg h")
  case (Inl e)
  with assms show ?thesis by (simp add: check_cpu_load_def)
next
  case loads: (Inr l)
  obtain l1 l5 l15 where l: "l = (l1, l5, l15)" by (cases l) auto
  show ?thesis
  proof (cases "cpu_count h")
    case None
    with assms loads l show ?thesis by (simp add: check_cpu_load_def)
  next
    case count: (Some n)
    show ?thesis
    proof (cases "cpu_percent h")
      case (Inl e)
      with assms loads l count show ?thesis
        by (auto simp: check_cpu_load_def Let_def dest: load_issue_ids)
    next
      case (Inr pct)
      with assms loads l count show ?thesis
        by (auto simp: check_cpu_load_def Let_def dest: load_issue_ids usage_issue_ids)
    qed
  qed
qed

lemma check_zombie_processes_ids:
  "i \<in> set (check_zombie_processes h) \<Longrightarrow> id' i = ''zombie_processes''"
  by (auto simp: check_zombie_processes_def split: sum.splits if_splits)

lemma inode_loop_ids:
  "i \<in> set (inode_loop ls) \<Longrightarrow> \<exists>x. id' i = ''inode_usage_'' @ x"
  by (induction ls) (auto simp: Let_def split: sum.splits if_splits)

lemma check_inode_usage_ids:
  "i \<in> set (check_inode_usage run h) \<Longrightarrow> \<exists>x. id' i = ''inode_usage_'' @ x"
  by (auto simp: check_inode_usage_def split: sum.splits if_splits dest: inode_loop_ids)

lemma check_swap_usage_ids:
  "i \<in> set (check_swap_usage py h) \<Longrightarrow> id' i = ''high_swap_usage''"
  by (auto simp: check_swap_usage_def split: sum.splits if_splits)

lemma check_system_updates_ids:
  "i \<in> set (check_system_updates run h) \<Longrightarrow> id' i = ''system_updates_available''"
  by (auto simp: check_system_updates_def Let_def split: sum.splits if_splits)

lemma check_failed_logins_ids:
  "i \<in> set (check_failed_logins run h) \<Longrightarrow> id' i = ''failed_login_attempts''"
proof -
  have "list_all (\<lambda>i. id' i = ''failed_login_attempts'') (check_failed_logins run h)"
    by (simp add: check_failed_logins_def split: sum.split)
  then show "i \<in> set (check_failed_logins run h) \<Longrightarrow> id' i = ''failed_login_attempts''"
    by (simp add: list_all_iff)
qed

lemma check_sudo_usage_ids:
  "i \<in> set (check_sudo_usage run h) \<Longrightarrow> id' i = ''unauthorized_sudo_usage''"
proof -
  have "list_all (\<lambda>i. id' i = ''unauthorized_sudo_usage'') (check_sudo_usage run h)"
    by (simp add: check_sudo_usage_def split: sum.split)
  then show "i \<in> set (check_sudo_usage run h) \<Longrightarrow> id' i = ''unauthorized_sudo_usage''"
    by (simp add: list_all_iff)
qed

lemma open_ports_loop_ids:
  "i \<in> set (open_ports_loop ps) \<Longrightarrow> \<exists>x. id' i = ''unexpected_open_port_'' @ x"
  by (induction ps) (auto split: sum.splits if_splits)

lemma check_open_ports_ids:
  "i \<in> set (check_open_ports run h) \<Longrightarrow> \<exists>x. id' i = ''unexpected_open_port_'' @ x"
  by (auto simp: check_open_ports_def split: sum.splits if_splits dest: open_ports_loop_ids)

lemma suspicious_matches_ids:
  "i \<in> set (suspicious_matches s ps) \<Longrightarrow> id' i = ''suspicious_process_'' @ s"
  by (auto simp: suspicious_matches_def split: if_splits)

lemma check_suspicious_processes_ids:
  "i \<in> set (check_suspicious_processes run h) \<Longrightarrow> \<exists>x. id' i = ''suspicious_process_'' @ x"
  by (auto simp: check_suspicious_processes_def Let_def
           split: sum.splits if_splits dest: suspicious_matches_ids)

lemma modified_files_loop_ids:
  "i \<in> set (modified_files_loop py clock h fs) \<Longrightarrow> \<exists>x. id' i = ''modified_system_file_'' @ x"
  by (induction fs) (auto split: sum.splits if_splits)

lemma check_modified_system_files_ids:
  "i \<in> set (check_modified_system_files py clock h) \<Longrightarrow>
     \<exists>x. id' i = ''modified_system_file_'' @ x"
  by (auto simp: check_modified_system_files_def dest: modified_files_loop_ids)

lemma check_ssh_config_ids:
  "i \<in> set (check_ssh_config h) \<Longrightarrow>
     id' i = ''ssh_root_login_enabled'' \<or> id' i = ''ssh_password_auth_enabled''"
proof -
  have "list_all (\<lambda>i. id' i = ''ssh_root_login_enabled'' \<or> id' i = ''ssh_password_auth_enabled'')
          (check_ssh_config h)"
    by (simp add: check_ssh_config_def split: sum.split)
  then show "i \<in> set (check_ssh_config h) \<Longrightarrow>
     id' i = ''ssh_root_login_enabled'' \<or> id' i = ''ssh_password_auth_enabled''"
    by (simp add: list_all_iff)
qed

lemma check_firewall_status_ids:
  "i \<in> set (check_firewall_status run h) \<Longrightarrow> id' i = ''firewall_disabled''"
proof -
  have "list_all (\<lambda>i. id' i = ''firewall_disabled'') (check_firewall_status run h)"
    by (simp add: check_firewall_status_def split: sum.split)
  then show "i \<in> set (check_firewall_status run h) \<Longrightarrow> id' i = ''firewall_disabled''"
    by (simp add: list_all_iff)
qed

section \<open>Unfolding the checks on a concrete host\<close>

lemmas health_defs =
  check_health_def health_checks_def check_disk_usage_def check_memory_usage_def
  check_cpu_load_def load_issue_def usage_issue_def check_zombie_processes_def
  check_inode_usage_def check_swap_usage_def check_system_updates_def
  DISK_USAGE_THRESHOLD_def MEMORY_USAGE_THRESHOLD_def CPU_USAGE_THRESHOLD_def
  LOAD_THRESHOLD_FACTOR_def SWAP_USAGE_THRESHOLD_def special_fs_def startswith_def
  replace_def query_def scripted_def Let_def

lemmas security_defs =
  check_security_def security_checks_def check_failed_logins_def check_sudo_usage_def
  check_open_ports_def check_suspicious_processes_def check_modified_system_files_def
  critical_files_def check_ssh_config_def ssh_config_path_def check_firewall_status_def
  ufw_status_cmd_def iptables_list_cmd_def suspicious_names_def suspicious_matches_def
  startswith_def query_def scripted_def Let_def
section \<open>The dispatcher on identifiers it does not know\<close>

text \<open>
  Claim C3. For every issue id that matches none of the dispatcher's patterns (the four
  prefixes and the three exact ids of \<^verbatim>\<open>repair_issue\<close>), the \<^verbatim>\<open>try\<close> block of
  \<^verbatim>\<open>repair_issue\<close> returns without an exception and without running a command, and
  \<^verbatim>\<open>repair_issue\<close> returns the result with the same id, \<^verbatim>\<open>success = False\<close> and the
  non-empty message \<^verbatim>\<open>No repair method available for this issue\<close>.
\<close>

theorem repair_issue_unmatched:
  assumes "\<not> startswith issue_id ''disk_usage_''"
    and "issue_id \<noteq> ''cpu_usage_high''"
    and "issue_id \<noteq> ''memory_usage_high''"
    and "\<not> startswith issue_id ''ssh_brute_force_''"
    and "\<not> startswith issue_id ''unexpected_open_port_''"
    and "issue_id \<noteq> ''security_updates_available''"
    and "\<not> startswith issue_id ''suspicious_process_''"
  shows "(\<exists>r. repair_issue_try py run issue_id h = (Inr r, h))
       \<and> repair_issue py run issue_id h =
           (\<lparr>id' = issue_id, success = False,
             message = ''No repair method available for this issue''\<rparr>, h)
       \<and> \<not> success (fst (repair_issue py run issue_id h))
       \<and> message (fst (repair_issue py run issue_id h)) \<noteq> []"
proof -
  have body: "repair_issue_try py run issue_id h =
      (Inr \<lparr>id' = issue_id, success = False,
            message = ''No repair method available for this issue''\<rparr>, h)"
    using assms by (simp add: repair_issue_try_def)
  then have "repair_issue py run issue_id h =
      (\<lparr>id' = issue_id, success = False,
        message = ''No repair method available for this issue''\<rparr>, h)"
    by (simp add: repair_issue_def catch_def)
  with body show ?thesis by simp
qed

theorem repair_issue_unmatched_witness:
  "\<not> startswith ''high_cpu_load'' ''disk_usage_''
   \<and> ''high_cpu_load'' \<noteq> ''cpu_usage_high''
   \<and> ''high_cpu_load'' \<noteq> ''memory_usage_high''
   \<and> \<not> startswith ''high_cpu_load'' ''ssh_brute_force_''
   \<and> \<not> startswith ''high_cpu_load'' ''unexpected_open_port_''
   \<and> ''high_cpu_load'' \<noteq> ''security_updates_available''
   \<and> \<not> startswith ''high_cpu_load'' ''suspicious_process_''
   \<and> repair_issue plain_py (scripted []) ''high_cpu_load'' idle_host =
       (\<lparr>id' = ''high_cpu_load'', success = False,
         message = ''No repair method available for this issue''\<rparr>, idle_host)"
  using repair_issue_unmatched [of "''high_cpu_load''" plain_py "scripted []" idle_host]
  by (simp add: startswith_def)

text \<open>
  Claim C2. Every issue that \<^verbatim>\<open>check_health\<close> produces for high memory usage
  (\<^verbatim>\<open>_check_memory_usage\<close>) or for high instantaneous CPU usage (the second test of
  \<^verbatim>\<open>_check_cpu_load\<close>) has the id \<^verbatim>\<open>high_memory_usage\<close> or \<^verbatim>\<open>high_cpu_usage\<close>, and
  \<^verbatim>\<open>repair_issue\<close> on that id, on any host, matches no branch of the dispatcher: it
  returns \<^verbatim>\<open>success = False\<close> with the message
  \<^verbatim>\<open>No repair method available for this issue\<close> and leaves the host as it was. (The
  dispatcher's own ids for these conditions are \<^verbatim>\<open>memory_usage_high\<close> and
  \<^verbatim>\<open>cpu_usage_high\<close>.)
\<close>

theorem memory_and_cpu_usage_issues_not_repaired:
  assumes "i \<in> set (fst (check_health py run h st))"
    and "i \<in> set (check_memory_usage py h) \<or> id' i = ''high_cpu_usage''"
  shows "(id' i = ''high_memory_usage'' \<or> id' i = ''high_cpu_usage'')
       \<and> repair_issue py run' (id' i) h' =
           (\<lparr>id' = id' i, success = False,
             message = ''No repair method available for this issue''\<rparr>, h')"
proof -
  from assms(2) have ids: "id' i = ''high_memory_usage'' \<or> id' i = ''high_cpu_usage''"
    by (auto dest: check_memory_usage_ids)
  then have "repair_issue_try py run' (id' i) h' =
      (Inr \<lparr>id' = id' i, success = False,
            message = ''No repair method available for this issue''\<rparr>, h')"
    by (auto simp: repair_issue_try_def startswith_def)
  then have "repair_issue py run' (id' i) h' =
      (\<lparr>id' = id' i, success = False,
        message = ''No repair method available for this issue''\<rparr>, h')"
    by (simp add: repair_issue_def catch_def)
  with ids show ?thesis by simp
qed
theorem memory_and_cpu_usage_issues_not_repaired_witness:
  "hd (check_memory_usage plain_py busy_host)
     \<in> set (fst (check_health plain_py (scripted []) busy_host fresh_daemon))
   \<and> map id' (fst (check_health plain_py (scripted []) busy_host fresh_daemon)) =
       [''high_memory_usage'', ''high_cpu_usage'']
   \<and> repair_issue plain_py (scripted []) ''high_memory_usage'' busy_host =
       (\<lparr>id' = ''high_memory_usage'', success = False,
         message = ''No repair method available for this issue''\<rparr>, busy_host)"
  using memory_and_cpu_usage_issues_not_repaired
          [of "hd (check_memory_usage plain_py busy_host)" plain_py "scripted []" busy_host
              fresh_daemon "scripted []" busy_host]
  by (simp add: health_defs busy_host_def idle_host_def)

section \<open>Every repair result echoes the id it was asked to repair\<close>

lemma andthen_returns:
  assumes "andthen m f h = (Inr r, h')"
    and "\<And>a h1. f a h1 = (Inr r, h') \<Longrightarrow> P"
  shows P
  using assms by (auto simp: andthen_def split: prod.splits sum.splits)

lemma finish_returns: "finish a h = (Inr r, h') \<Longrightarrow> r = a"
  by (simp add: finish_def)

lemma catch_id:
  assumes "\<And>r h'. m h = (Inr r, h') \<Longrightarrow> id' r = x"
    and "\<And>e. id' (handler e) = x"
  shows "id' (fst (catch m handler h)) = x"
  using assms by (auto simp: catch_def split: prod.splits sum.splits)

lemma repair_disk_usage_id: "id' (fst (repair_disk_usage py run issue_id h)) = issue_id"
  unfolding repair_disk_usage_def
proof (rule catch_id)
  fix r h'
  assume "repair_disk_usage_try py run issue_id h = (Inr r, h')"
  then show "id' r = issue_id"
    unfolding repair_disk_usage_try_def Let_def
    by (elim andthen_returns) (auto dest: finish_returns)
qed simp

lemma repair_cpu_usage_id: "id' (fst (repair_cpu_usage py run h)) = ''cpu_usage_high''"
  unfolding repair_cpu_usage_def
proof (rule catch_id)
  fix r h'
  assume "repair_cpu_usage_try py run h = (Inr r, h')"
  then show "id' r = ''cpu_usage_high''"
    unfolding repair_cpu_usage_try_def
    by (elim andthen_returns) (auto split: sum.splits if_splits)
qed simp

lemma repair_memory_usage_id: "id' (fst (repair_memory_usage py run h)) = ''memory_usage_high''"
  unfolding repair_memory_usage_def
proof (rule catch_id)
  fix r h'
  assume "repair_memory_usage_try py run h = (Inr r, h')"
  then show "id' r = ''memory_usage_high''"
    unfolding repair_memory_usage_try_def
    by (elim andthen_returns) (auto split: sum.splits if_splits)
qed simp

lemma repair_ssh_brute_force_id:
  "id' (fst (repair_ssh_brute_force py run issue_id h)) = issue_id"
  unfolding repair_ssh_brute_force_def
proof (rule catch_id)
  fix r h'
  assume "repair_ssh_brute_force_try py run issue_id h = (Inr r, h')"
  then show "id' r = issue_id"
    unfolding repair_ssh_brute_force_try_def Let_def
    by (cases "inet_aton_ok py (replace (replace issue_id ''ssh_brute_force_'' []) ''_'' ''.'')")
       (auto elim!: andthen_returns dest: finish_returns)
qed simp

lemma repair_open_port_id: "id' (fst (repair_open_port run issue_id h)) = issue_id"
  unfolding repair_open_port_def
proof (rule catch_id)
  fix r h'
  assume "repair_open_port_try run issue_id h = (Inr r, h')"
  then show "id' r = issue_id"
    unfolding repair_open_port_try_def Let_def
    by (elim andthen_returns)
       (auto elim!: andthen_returns dest!: finish_returns split: if_splits list.splits)
qed simp

lemma repair_security_updates_id:
  "id' (fst (repair_security_updates py run h)) = ''security_updates_available''"
  unfolding repair_security_updates_def
proof (rule catch_id)
  fix r h'
  assume "repair_security_updates_try py run h = (Inr r, h')"
  then show "id' r = ''security_updates_available''"
    unfolding repair_security_updates_try_def Let_def
    by (auto elim!: andthen_returns dest!: finish_returns split: if_splits)
qed simp

lemma repair_suspicious_process_id:
  "id' (fst (repair_suspicious_process run issue_id h)) = issue_id"
  unfolding repair_suspicious_process_def
proof (rule catch_id)
  fix r h'
  assume "repair_suspicious_process_try run issue_id h = (Inr r, h')"
  then show "id' r = issue_id"
    unfolding repair_suspicious_process_try_def Let_def
    by (elim andthen_returns) (auto split: if_splits)
qed simp

lemma repair_issue_id: "id' (fst (repair_issue py run issue_id h)) = issue_id"
  unfolding repair_issue_def
proof (rule catch_id)
  fix r h'
  assume "repair_issue_try py run issue_id h = (Inr r, h')"
  then show "id' r = issue_id"
    using repair_disk_usage_id [of py run issue_id h] repair_cpu_usage_id [of py run h]
      repair_memory_usage_id [of py run h] repair_ssh_brute_force_id [of py run issue_id h]
      repair_open_port_id [of run issue_id h] repair_security_updates_id [of py run h]
      repair_suspicious_process_id [of run issue_id h]
    by (auto simp: repair_issue_try_def returned_def split: if_splits)
qed simp

lemma repair_each_ids: "map id' (fst (repair_each py run issues h)) = map id' issues"
proof (induction issues arbitrary: h)
  case Nil
  show ?case by simp
next
  case (Cons issue issues)
  obtain result h' where step: "repair_issue py run (id' issue) h = (result, h')"
    by (cases "repair_issue py run (id' issue) h")
  obtain results h'' where rest: "repair_each py run issues h' = (results, h'')"
    by (cases "repair_each py run issues h'")
  from step have "id' result = id' issue"
    using repair_issue_id [of py run "id' issue" h] by simp
  moreover from rest have "map id' results = map id' issues"
    using Cons.IH [of h'] by simp
  ultimately show ?case using step rest by simp
qed

lemma repair_each_host:
  "snd (repair_each py run issues h) =
   foldl (\<lambda>h' i. snd (repair_issue py run (id' i) h')) h issues"
proof (induction issues arbitrary: h)
  case Nil
  show ?case by simp
next
  case (Cons issue issues)
  obtain result h1 where step: "repair_issue py run (id' issue) h = (result, h1)"
    by (cases "repair_issue py run (id' issue) h")
  obtain results h2 where rest: "repair_each py run issues h1 = (results, h2)"
    by (cases "repair_each py run issues h1")
  from Cons.IH [of h1] rest step show ?case by simp
qed

lemma repair_each_nth:
  "k < length issues \<Longrightarrow>
   fst (repair_each py run issues h) ! k =
   fst (repair_issue py run (id' (issues ! k))
          (foldl (\<lambda>h' i. snd (repair_issue py run (id' i) h')) h (take k issues)))"
proof (induction issues arbitrary: h k)
  case Nil
  then show ?case by simp
next
  case (Cons issue issues)
  obtain result h1 where step: "repair_issue py run (id' issue) h = (result, h1)"
    by (cases "repair_issue py run (id' issue) h")
  obtain results h2 where rest: "repair_each py run issues h1 = (results, h2)"
    by (cases "repair_each py run issues h1")
  show ?case
  proof (cases k)
    case 0
    with step rest show ?thesis by simp
  next
    case (Suc j)
    with Cons.prems have "j < length issues" by simp
    from Cons.IH [OF this, of h1] rest step Suc show ?thesis by simp
  qed
qed

section \<open>repair\_all\<close>

text \<open>
  Claim C4. \<^verbatim>\<open>repair_all\<close> returns one result for each issue of its own
  \<^verbatim>\<open>check_health\<close> call followed by those of its own \<^verbatim>\<open>check_security\<close> call, in
  that order. The number of results is the sum of the two numbers of issues; the ids of
  the results are the ids of the issues, position by position; and the result at
  position \<open>k\<close> is what \<^verbatim>\<open>repair_issue\<close> returns for the id of issue \<open>k\<close>, run on
  the host as the repairs of the issues before it left it. Whether those repairs
  succeeded or failed has no part in it: every issue is attempted.
\<close>

theorem repair_all_one_result_per_issue:
  "(let health = fst (check_health py run h st);
        security = fst (check_security py run clock h (snd (check_health py run h st)));
        issues = health @ security;
        results = fst (repair_all py run clock h st)
    in length results = length health + length security
       \<and> map id' results = map id' issues
       \<and> (\<forall>k < length issues.
             results ! k =
             fst (repair_issue py run (id' (issues ! k))
                    (foldl (\<lambda>h' i. snd (repair_issue py run (id' i) h')) h (take k issues)))))"
proof -
  obtain health st1 where hc: "check_health py run h st = (health, st1)"
    by (cases "check_health py run h st")
  obtain security st2 where sc: "check_security py run clock h st1 = (security, st2)"
    by (cases "check_security py run clock h st1")
  obtain results h' where rs: "repair_each py run (health @ security) h = (results, h')"
    by (cases "repair_each py run (health @ security) h")
  have all: "fst (repair_all py run clock h st) = results"
    using hc sc rs by (simp add: repair_all_def)
  have ids: "map id' results = map id' (health @ security)"
    using repair_each_ids [of py run "health @ security" h] rs by simp
  then have len: "length results = length health + length security"
    using length_map [of id' results] length_map [of id' "health @ security"] by simp
  have each: "results ! k =
      fst (repair_issue py run (id' ((health @ security) ! k))
             (foldl (\<lambda>h' i. snd (repair_issue py run (id' i) h')) h (take k (health @ security))))"
    if "k < length (health @ security)" for k
    using repair_each_nth [OF that, of py run h] rs by simp
  from all ids len each hc sc show ?thesis
    unfolding Let_def by simp
qed

theorem repair_all_one_result_per_issue_witness:
  "map id' (fst (check_health plain_py netcat_runner busy_host fresh_daemon)) =
     [''high_memory_usage'', ''high_cpu_usage'']
   \<and> map id' (fst (check_security plain_py netcat_runner (\<lambda>_. 0) busy_host
                     (snd (check_health plain_py netcat_runner busy_host fresh_daemon)))) =
       [''suspicious_process_nc'', ''firewall_disabled'']
   \<and> length (fst (repair_all plain_py netcat_runner (\<lambda>_. 0) busy_host fresh_daemon)) = 2 + 2
   \<and> map (\<lambda>r. (id' r, success r))
         (fst (repair_all plain_py netcat_runner (\<lambda>_. 0) busy_host fresh_daemon)) =
       [(''high_memory_usage'', False), (''high_cpu_usage'', False),
        (''suspicious_process_nc'', True), (''firewall_disabled'', False)]
   \<and> fst (repair_all plain_py netcat_runner (\<lambda>_. 0) busy_host fresh_daemon) ! 2 =
       \<lparr>id' = ''suspicious_process_nc'', success = True,
         message = ''Terminated suspicious process nc''\<rparr>"
proof -
  let ?health = "fst (check_health plain_py netcat_runner busy_host fresh_daemon)"
  let ?security = "fst (check_security plain_py netcat_runner (\<lambda>_. 0) busy_host
                         (snd (check_health plain_py netcat_runner busy_host fresh_daemon)))"
  let ?results = "fst (repair_all plain_py netcat_runner (\<lambda>_. 0) busy_host fresh_daemon)"
  note main = repair_all_one_result_per_issue
                [of plain_py netcat_runner busy_host fresh_daemon "\<lambda>_. 0", unfolded Let_def]
  have health: "map id' ?health = [''high_memory_usage'', ''high_cpu_usage'']"
    by code_simp
  have security: "map id' ?security = [''suspicious_process_nc'', ''firewall_disabled'']"
    by code_simp
  have outcomes: "map (\<lambda>r. (id' r, success r)) ?results =
      [(''high_memory_usage'', False), (''high_cpu_usage'', False),
       (''suspicious_process_nc'', True), (''firewall_disabled'', False)]"
    by code_simp
  have nh: "length ?health = 2" and ns: "length ?security = 2"
    by code_simp+
  have count: "length ?results = 2 + 2"
    using main nh ns by simp
  have third: "(2 :: nat) < length (?health @ ?security)"
    using nh ns by simp
  have attempt: "fst (repair_issue plain_py netcat_runner (id' ((?health @ ?security) ! 2))
        (foldl (\<lambda>h' i. snd (repair_issue plain_py netcat_runner (id' i) h')) busy_host
           (take 2 (?health @ ?security)))) =
      \<lparr>id' = ''suspicious_process_nc'', success = True,
        message = ''Terminated suspicious process nc''\<rparr>"
    by code_simp
  from main [THEN conjunct2, THEN conjunct2, rule_format, OF third] attempt
  have "?results ! 2 =
      \<lparr>id' = ''suspicious_process_nc'', success = True,
        message = ''Terminated suspicious process nc''\<rparr>"
    by simp
  with health security count outcomes show ?thesis by simp
qed

section \<open>check\_health\<close>

lemma filter_none: "(\<And>i. i \<in> set xs \<Longrightarrow> \<not> P i) \<Longrightarrow> filter P xs = []"
  by (simp add: filter_empty_conv)

lemma health_checks_high_cpu_load:
  "filter (\<lambda>i. id' i = ''high_cpu_load'') (health_checks py run h) =
   filter (\<lambda>i. id' i = ''high_cpu_load'') (check_cpu_load py h)"
proof -
  have "filter (\<lambda>i. id' i = ''high_cpu_load'') (check_disk_usage py h) = []"
    by (rule filter_none) (auto dest: check_disk_usage_ids)
  moreover have "filter (\<lambda>i. id' i = ''high_cpu_load'') (check_memory_usage py h) = []"
    by (rule filter_none) (auto dest: check_memory_usage_ids)
  moreover have "filter (\<lambda>i. id' i = ''high_cpu_load'') (check_zombie_processes h) = []"
    by (rule filter_none) (auto dest: check_zombie_processes_ids)
  moreover have "filter (\<lambda>i. id' i = ''high_cpu_load'') (check_inode_usage run h) = []"
    by (rule filter_none) (auto dest: check_inode_usage_ids)
  moreover have "filter (\<lambda>i. id' i = ''high_cpu_load'') (check_swap_usage py h) = []"
    by (rule filter_none) (auto dest: check_swap_usage_ids)
  moreover have "filter (\<lambda>i. id' i = ''high_cpu_load'') (check_system_updates run h) = []"
    by (rule filter_none) (auto dest: check_system_updates_ids)
  ultimately show ?thesis by (simp add: health_checks_def)
qed

lemma health_checks_zombie_processes:
  "filter (\<lambda>i. id' i = ''zombie_processes'') (health_checks py run h) =
   filter (\<lambda>i. id' i = ''zombie_processes'') (check_zombie_processes h)"
proof -
  have "filter (\<lambda>i. id' i = ''zombie_processes'') (check_disk_usage py h) = []"
    by (rule filter_none) (auto dest: check_disk_usage_ids)
  moreover have "filter (\<lambda>i. id' i = ''zombie_processes'') (check_memory_usage py h) = []"
    by (rule filter_none) (auto dest: check_memory_usage_ids)
  moreover have "filter (\<lambda>i. id' i = ''zombie_processes'') (check_cpu_load py h) = []"
    by (rule filter_none) (auto dest: check_cpu_load_ids)
  moreover have "filter (\<lambda>i. id' i = ''zombie_processes'') (check_inode_usage run h) = []"
    by (rule filter_none) (auto dest: check_inode_usage_ids)
  moreover have "filter (\<lambda>i. id' i = ''zombie_processes'') (check_swap_usage py h) = []"
    by (rule filter_none) (auto dest: check_swap_usage_ids)
  moreover have "filter (\<lambda>i. id' i = ''zombie_processes'') (check_system_updates run h) = []"
    by (rule filter_none) (auto dest: check_system_updates_ids)
  ultimately show ?thesis by (simp add: health_checks_def)
qed

lemma check_cpu_load_high_cpu_load:
  assumes "getloadavg h = Inr (load1, load5, load15)" and "cpu_count h = Some n"
  shows "filter (\<lambda>i. id' i = ''high_cpu_load'') (check_cpu_load py h) =
         load_issue py n (of_nat n * LOAD_THRESHOLD_FACTOR) load1 load5 load15"
proof -
  have load: "filter (\<lambda>i. id' i = ''high_cpu_load'')
                (load_issue py n (of_nat n * LOAD_THRESHOLD_FACTOR) load1 load5 load15) =
              load_issue py n (of_nat n * LOAD_THRESHOLD_FACTOR) load1 load5 load15"
    by (simp add: load_issue_def)
  have usage: "filter (\<lambda>i. id' i = ''high_cpu_load'') (usage_issue py pct) = []" for pct
    by (simp add: usage_issue_def)
  show ?thesis
  proof (cases "cpu_percent h")
    case (Inl e)
    with assms load show ?thesis by (simp add: check_cpu_load_def Let_def)
  next
    case (Inr pct)
    with assms load usage [of pct] show ?thesis by (simp add: check_cpu_load_def Let_def)
  qed
qed

text \<open>
  Claim C5, as the code has it. With \<open>n\<close> cores and a one-minute load average
  \<open>load1\<close>, \<^verbatim>\<open>check_health\<close> returns one \<^verbatim>\<open>high_cpu_load\<close> issue when
  \<open>load1 > 1.5 * n\<close> and none otherwise; its severity is high when
  \<open>load1 > 2.25 * n\<close> and medium otherwise. Both comparisons are strict, as the
  source's \<^verbatim>\<open>load1 > threshold\<close> and \<^verbatim>\<open>load1 > threshold * 1.5\<close> are: a load average
  of exactly \<open>1.5 * n\<close> is not reported, and one of exactly \<open>2.25 * n\<close> is medium.
\<close>

theorem high_cpu_load_strictly_above_threshold:
  assumes "getloadavg h = Inr (load1, load5, load15)" and "cpu_count h = Some n"
  shows "map severity (filter (\<lambda>i. id' i = ''high_cpu_load'') (fst (check_health py run h st))) =
         (if load1 > 3 / 2 * of_nat n
          then [if load1 > 9 / 4 * of_nat n then ''high'' else ''medium'']
          else [])"
proof -
  have "filter (\<lambda>i. id' i = ''high_cpu_load'') (fst (check_health py run h st)) =
        load_issue py n (of_nat n * LOAD_THRESHOLD_FACTOR) load1 load5 load15"
    using check_cpu_load_high_cpu_load [OF assms, of py]
    by (simp add: check_health_def Let_def health_checks_high_cpu_load)
  then show ?thesis
    by (simp add: load_issue_def LOAD_THRESHOLD_FACTOR_def mult.commute)
qed

theorem high_cpu_load_strictly_above_threshold_witness:
  "getloadavg loaded_host = Inr (4, 3, 2) \<and> cpu_count loaded_host = Some 2
   \<and> map severity (filter (\<lambda>i. id' i = ''high_cpu_load'')
                      (fst (check_health plain_py (scripted []) loaded_host fresh_daemon))) =
       [''medium'']"
proof -
  have loads: "getloadavg loaded_host = Inr (4, 3, 2)"
    and cores: "cpu_count loaded_host = Some 2"
    by (simp_all add: loaded_host_def idle_host_def)
  from high_cpu_load_strictly_above_threshold
         [OF loads cores, of plain_py "scripted []" fresh_daemon]
  have "map severity (filter (\<lambda>i. id' i = ''high_cpu_load'')
                        (fst (check_health plain_py (scripted []) loaded_host fresh_daemon))) =
        [''medium'']"
    by simp
  with loads cores show ?thesis by simp
qed

text \<open>
  The claim as the specification words it (a load average of at least \<open>1.5 * n\<close> is
  reported) fails at the boundary: two cores, load average 3.
\<close>

theorem high_cpu_load_at_threshold_counterexample:
  "cpu_count boundary_load_host = Some 2
   \<and> getloadavg boundary_load_host = Inr (3, 3, 3)
   \<and> (3 :: rat) \<ge> 3 / 2 * of_nat 2
   \<and> \<not> (\<exists>i \<in> set (fst (check_health plain_py (scripted []) boundary_load_host fresh_daemon)).
           id' i = ''high_cpu_load'')"
proof -
  have "fst (check_health plain_py (scripted []) boundary_load_host fresh_daemon) = []"
    by code_simp
  then show ?thesis by (simp add: boundary_load_host_def idle_host_def)
qed

lemma collect_zombies_readable:
  "collect_zombies (map Inr procs) = Inr (filter (\<lambda>p. proc_status p = STATUS_ZOMBIE) procs)"
  by (induction procs) simp_all

text \<open>
  Claim C9. When every process of the table can be read, \<^verbatim>\<open>check_health\<close> returns
  exactly one \<^verbatim>\<open>zombie_processes\<close> issue if at least one process has the status
  \<^verbatim>\<open>zombie\<close>, with severity medium when there are more than ten zombies and low when
  there are ten or fewer; with no zombie it returns no such issue.
\<close>

theorem zombie_processes_issue:
  assumes "process_iter h = Inr (map Inr procs)"
  shows "map severity (filter (\<lambda>i. id' i = ''zombie_processes'')
                         (fst (check_health py run h st))) =
         (if filter (\<lambda>p. proc_status p = ''zombie'') procs = [] then []
          else [if length (filter (\<lambda>p. proc_status p = ''zombie'') procs) > 10
                then ''medium'' else ''low''])"
  using assms
  by (simp add: check_health_def Let_def health_checks_zombie_processes
                check_zombie_processes_def collect_zombies_readable STATUS_ZOMBIE_def)

theorem zombie_processes_issue_witness:
  "process_iter zombie_host = Inr (map Inr (replicate 10 defunct))
   \<and> length (filter (\<lambda>p. proc_status p = ''zombie'') (replicate 10 defunct)) = 10
   \<and> map severity (filter (\<lambda>i. id' i = ''zombie_processes'')
                      (fst (check_health plain_py (scripted []) zombie_host fresh_daemon))) =
       [''low'']"
proof -
  have table: "process_iter zombie_host = Inr (map Inr (replicate 10 defunct))"
    by (simp add: zombie_host_def)
  have ten: "filter (\<lambda>p. proc_status p = ''zombie'') (replicate 10 defunct) =
             replicate 10 defunct"
    by (simp add: defunct_def)
  from zombie_processes_issue [OF table, of plain_py "scripted []" fresh_daemon] ten
  have "map severity (filter (\<lambda>i. id' i = ''zombie_processes'')
                        (fst (check_health plain_py (scripted []) zombie_host fresh_daemon))) =
        [''low'']"
    by simp
  with table ten show ?thesis by simp
qed

section \<open>The disk issue of a mount point\<close>

text \<open>
  The loop over the partitions reaches a partition when \<^verbatim>\<open>psutil.disk_usage\<close> has
  raised for none of the partitions examined before it; the partitions listed after it,
  and those the filter passes over, have no part in it.
\<close>

lemma disk_usage_loop_reports:
  assumes "\<forall>q \<in> set before. fstype q \<noteq> [] \<and> \<not> special_fs (mountpoint q)
             \<longrightarrow> (\<exists>v. disk_usage h (mountpoint q) = Inr v)"
    and "fstype p \<noteq> []" and "\<not> special_fs (mountpoint p)"
    and "disk_usage h (mountpoint p) = Inr u"
    and "du_percent u \<ge> 90"
  shows "\<exists>i \<in> set (disk_usage_loop py h (before @ p # after)).
           id' i = ''disk_usage_'' @ replace (mountpoint p) ''/'' ''_''
           \<and> severity i = (if du_percent u \<ge> 95 then ''high'' else ''medium'')"
  using assms(1)
proof (induction before)
  case Nil
  from assms(2-5) show ?case by (simp add: DISK_USAGE_THRESHOLD_def)
next
  case (Cons q qs)
  then have rest: "\<exists>i \<in> set (disk_usage_loop py h (qs @ p # after)).
           id' i = ''disk_usage_'' @ replace (mountpoint p) ''/'' ''_''
           \<and> severity i = (if du_percent u \<ge> 95 then ''high'' else ''medium'')"
    by simp
  show ?case
  proof (cases "fstype q \<noteq> [] \<and> \<not> special_fs (mountpoint q)")
    case False
    with rest show ?thesis by auto
  next
    case True
    with Cons.prems obtain v where "disk_usage h (mountpoint q) = Inr v" by auto
    with True rest show ?thesis by auto
  qed
qed

text \<open>
  Claim C1, as the code has it. A data filesystem mounted at \<^verbatim>\<open>/data\<close> whose
  measured usage is at least 90% gives an issue of \<^verbatim>\<open>check_health\<close> whose id is
  \<^verbatim>\<open>disk_usage__data\<close>: the id is \<^verbatim>\<open>disk_usage_\<close> followed by the mount point with
  every slash, the leading one too, replaced by an underscore. Its severity is high
  from 95% on, so at 96%, and medium below. This holds when the partitions can be
  listed and \<^verbatim>\<open>psutil.disk_usage\<close> raises for none of the partitions that the loop
  examines before \<^verbatim>\<open>/data\<close> (those listed before it with a filesystem type and a
  mount point outside \<^verbatim>\<open>/boot\<close>, \<^verbatim>\<open>/dev\<close>, \<^verbatim>\<open>/proc\<close> and \<^verbatim>\<open>/sys\<close>): the loop
  stands in one \<^verbatim>\<open>try\<close>, and an exception ends it.
\<close>

theorem data_mount_disk_issue:
  assumes "disk_partitions h = Inr (before @ p # after)"
    and "mountpoint p = ''/data''" and "fstype p \<noteq> []"
    and "\<forall>q \<in> set before. fstype q \<noteq> [] \<and> \<not> special_fs (mountpoint q)
           \<longrightarrow> (\<exists>v. disk_usage h (mountpoint q) = Inr v)"
    and "disk_usage h ''/data'' = Inr u"
    and "du_percent u \<ge> 90"
  shows "\<exists>i \<in> set (fst (check_health py run h st)).
           id' i = ''disk_usage__data''
           \<and> severity i = (if du_percent u \<ge> 95 then ''high'' else ''medium'')"
proof -
  have special: "\<not> special_fs (mountpoint p)"
    using assms(2) by (simp add: special_fs_def startswith_def)
  have name: "replace (mountpoint p) ''/'' ''_'' = ''_data''"
    using assms(2) by (simp add: replace_def startswith_def)
  have usage: "disk_usage h (mountpoint p) = Inr u"
    using assms(2) assms(5) by simp
  from disk_usage_loop_reports [OF assms(4) assms(3) special usage assms(6), of py after] name
  have "\<exists>i \<in> set (disk_usage_loop py h (before @ p # after)).
          id' i = ''disk_usage__data''
          \<and> severity i = (if du_percent u \<ge> 95 then ''high'' else ''medium'')"
    by simp
  then show ?thesis
    using assms(1) by (auto simp: check_health_def Let_def health_checks_def check_disk_usage_def)
qed

theorem data_mount_disk_issue_witness:
  "disk_partitions server_host =
     Inr ([\<lparr>mountpoint = ''/boot/efi'', fstype = ''vfat''\<rparr>, \<lparr>mountpoint = ''/'', fstype = ''ext4''\<rparr>]
          @ \<lparr>mountpoint = ''/data'', fstype = ''ext4''\<rparr> # [])
   \<and> special_fs ''/boot/efi''
   \<and> (\<exists>v. disk_usage server_host ''/'' = Inr v)
   \<and> (\<exists>u. disk_usage server_host ''/data'' = Inr u \<and> du_percent u = 96)
   \<and> (\<exists>i \<in> set (fst (check_health plain_py (scripted []) server_host fresh_daemon)).
         id' i = ''disk_usage__data'' \<and> severity i = ''high'')"
proof -
  let ?u = "\<lparr>du_total = 107374182400, du_free = 4294967296, du_percent = 96\<rparr>"
  let ?before = "[\<lparr>mountpoint = ''/boot/efi'', fstype = ''vfat''\<rparr>,
                  \<lparr>mountpoint = ''/'', fstype = ''ext4''\<rparr>]"
  let ?p = "\<lparr>mountpoint = ''/data'', fstype = ''ext4''\<rparr>"
  have parts: "disk_partitions server_host = Inr (?before @ ?p # [])"
    by (simp add: server_host_def)
  have efi: "special_fs ''/boot/efi''"
    by (simp add: special_fs_def startswith_def)
  have root: "disk_usage server_host ''/'' =
      Inr \<lparr>du_total = 53687091200, du_free = 26843545600, du_percent = 50\<rparr>"
    by (simp add: server_host_def)
  have usage: "disk_usage server_host ''/data'' = Inr ?u"
    by (simp add: server_host_def)
  have earlier: "\<forall>q \<in> set ?before. fstype q \<noteq> [] \<and> \<not> special_fs (mountpoint q)
                   \<longrightarrow> (\<exists>v. disk_usage server_host (mountpoint q) = Inr v)"
    using efi root by simp
  have "\<exists>i \<in> set (fst (check_health plain_py (scripted []) server_host fresh_daemon)).
          id' i = ''disk_usage__data''
          \<and> severity i = (if du_percent ?u \<ge> 95 then ''high'' else ''medium'')"
    by (rule data_mount_disk_issue [OF parts _ _ earlier usage]) simp_all
  with parts efi root usage show ?thesis by simp
qed

text \<open>
  The claim as the specification words it fails twice. On the host of the scenario
  \<^verbatim>\<open>check_health\<close> returns one issue, and its id is \<^verbatim>\<open>disk_usage__data\<close>, not
  \<^verbatim>\<open>disk_usage_data\<close>. And with a mount listed before \<^verbatim>\<open>/data\<close> for which
  \<^verbatim>\<open>psutil.disk_usage\<close> raises, \<^verbatim>\<open>check_health\<close> returns no disk issue at all, although
  \<^verbatim>\<open>/data\<close> is mounted and 96% used.
\<close>

theorem data_mount_disk_issue_counterexample:
  "map (\<lambda>i. (id' i, severity i))
     (fst (check_health plain_py (scripted []) data_host fresh_daemon)) =
     [(''disk_usage__data'', ''high'')]
   \<and> \<not> (\<exists>i \<in> set (fst (check_health plain_py (scripted []) data_host fresh_daemon)).
           id' i = ''disk_usage_data'' \<and> severity i = ''high'')
   \<and> (\<exists>u. disk_usage stale_mount_host ''/data'' = Inr u \<and> du_percent u = 96)
   \<and> fst (check_health plain_py (scripted []) stale_mount_host fresh_daemon) = []"
proof -
  have run: "map (\<lambda>i. (id' i, severity i))
      (fst (check_health plain_py (scripted []) data_host fresh_daemon)) =
      [(''disk_usage__data'', ''high'')]"
    by code_simp
  have ids: "map id' (fst (check_health plain_py (scripted []) data_host fresh_daemon)) =
      [''disk_usage__data'']"
    by code_simp
  have "''disk_usage_data''
          \<notin> set (map id' (fst (check_health plain_py (scripted []) data_host fresh_daemon)))"
    unfolding ids by simp
  then have none: "\<not> (\<exists>i \<in> set (fst (check_health plain_py (scripted []) data_host fresh_daemon)).
           id' i = ''disk_usage_data'' \<and> severity i = ''high'')"
    by force
  have measured: "\<exists>u. disk_usage stale_mount_host ''/data'' = Inr u \<and> du_percent u = 96"
    by (simp add: stale_mount_host_def)
  have cut: "length (fst (check_health plain_py (scripted []) stale_mount_host fresh_daemon)) = 0"
    by code_simp
  from run none measured cut show ?thesis by simp
qed

section \<open>check\_security\<close>

lemma security_checks_ssh_root_login:
  "filter (\<lambda>i. id' i = ''ssh_root_login_enabled'') (security_checks py run clock h) =
   filter (\<lambda>i. id' i = ''ssh_root_login_enabled'') (check_ssh_config h)"
proof -
  have "filter (\<lambda>i. id' i = ''ssh_root_login_enabled'') (check_failed_logins run h) = []"
    by (rule filter_none) (auto dest: check_failed_logins_ids)
  moreover have "filter (\<lambda>i. id' i = ''ssh_root_login_enabled'') (check_sudo_usage run h) = []"
    by (rule filter_none) (auto dest: check_sudo_usage_ids)
  moreover have "filter (\<lambda>i. id' i = ''ssh_root_login_enabled'') (check_open_ports run h) = []"
    by (rule filter_none) (auto dest: check_open_ports_ids)
  moreover have
    "filter (\<lambda>i. id' i = ''ssh_root_login_enabled'') (check_suspicious_processes run h) = []"
    by (rule filter_none) (auto dest: check_suspicious_processes_ids)
  moreover have
    "filter (\<lambda>i. id' i = ''ssh_root_login_enabled'') (check_modified_system_files py clock h) = []"
    by (rule filter_none) (auto dest: check_modified_system_files_ids)
  moreover have
    "filter (\<lambda>i. id' i = ''ssh_root_login_enabled'') (check_firewall_status run h) = []"
    by (rule filter_none) (auto dest: check_firewall_status_ids)
  ultimately show ?thesis by (simp add: security_checks_def)
qed

text \<open>
  Claim C8, as the code has it. The check reads the configuration as text and looks for
  \<^verbatim>\<open>PermitRootLogin yes\<close> in it, the keyword and the value one space apart. When the
  SSH daemon configuration file exists, can be read, and contains that text, a cycle of
  \<^verbatim>\<open>check_security\<close> returns the id \<^verbatim>\<open>ssh_root_login_enabled\<close> exactly once, with
  severity high.
\<close>

theorem ssh_root_login_reported_once:
  assumes "path_exists h ''/etc/ssh/sshd_config''"
    and "read_text h ''/etc/ssh/sshd_config'' = Inr config"
    and "str_in ''PermitRootLogin yes'' config"
  shows "map severity (filter (\<lambda>i. id' i = ''ssh_root_login_enabled'')
                         (fst (check_security py run clock h st))) = [''high'']"
  using assms
  by (simp add: check_security_def Let_def security_checks_ssh_root_login
                check_ssh_config_def ssh_config_path_def)

theorem ssh_root_login_reported_once_witness:
  "path_exists root_login_host ''/etc/ssh/sshd_config''
   \<and> read_text root_login_host ''/etc/ssh/sshd_config'' = Inr sshd_config_text
   \<and> str_in ''PermitRootLogin yes'' sshd_config_text
   \<and> map severity (filter (\<lambda>i. id' i = ''ssh_root_login_enabled'')
        (fst (check_security plain_py (scripted []) (\<lambda>_. 100000) root_login_host fresh_daemon))) =
       [''high'']"
proof -
  have present: "path_exists root_login_host ''/etc/ssh/sshd_config''"
    and content: "read_text root_login_host ''/etc/ssh/sshd_config'' = Inr sshd_config_text"
    by (simp_all add: root_login_host_def)
  have permit: "str_in ''PermitRootLogin yes'' sshd_config_text"
    by code_simp
  from ssh_root_login_reported_once
         [OF present content permit, of plain_py "scripted []" "\<lambda>_. 100000" fresh_daemon]
       present content permit
  show ?thesis by simp
qed

text \<open>
  The claim as the specification words it (whenever the configuration file enables root
  login) fails for a file that enables it in another spelling. Here the second line of
  the file is the keyword \<^verbatim>\<open>PermitRootLogin\<close> with the value \<^verbatim>\<open>yes\<close>, a tab between
  them; the file exists and is read, and \<^verbatim>\<open>check_security\<close> returns no
  \<^verbatim>\<open>ssh_root_login_enabled\<close> issue.
\<close>

theorem ssh_root_login_tab_counterexample:
  "path_exists tabbed_root_login_host ''/etc/ssh/sshd_config''
   \<and> read_text tabbed_root_login_host ''/etc/ssh/sshd_config'' = Inr tabbed_sshd_config_text
   \<and> split_ws (split_on (CHR 0x0A) tabbed_sshd_config_text ! 1) = [''PermitRootLogin'', ''yes'']
   \<and> \<not> (\<exists>i \<in> set (fst (check_security plain_py (scripted []) (\<lambda>_. 100000)
                            tabbed_root_login_host fresh_daemon)).
           id' i = ''ssh_root_login_enabled'')"
proof -
  have present: "path_exists tabbed_root_login_host ''/etc/ssh/sshd_config''"
    and content: "read_text tabbed_root_login_host ''/etc/ssh/sshd_config'' =
                    Inr tabbed_sshd_config_text"
    by (simp_all add: tabbed_root_login_host_def)
  have directive:
    "split_ws (split_on (CHR 0x0A) tabbed_sshd_config_text ! 1) = [''PermitRootLogin'', ''yes'']"
    by code_simp
  have ids: "map id' (fst (check_security plain_py (scripted []) (\<lambda>_. 100000)
                             tabbed_root_login_host fresh_daemon)) =
             [''firewall_disabled'']"
    by code_simp
  have "''ssh_root_login_enabled''
          \<notin> set (map id' (fst (check_security plain_py (scripted []) (\<lambda>_. 100000)
                                  tabbed_root_login_host fresh_daemon)))"
    unfolding ids by simp
  then have "\<not> (\<exists>i \<in> set (fst (check_security plain_py (scripted []) (\<lambda>_. 100000)
                            tabbed_root_login_host fresh_daemon)).
           id' i = ''ssh_root_login_enabled'')"
    by force
  with present content directive show ?thesis by simp
qed

subsection \<open>Listening ports\<close>

lemma isdigit_not_int_space: "isdigit c \<Longrightarrow> \<not> int_space c"
  by (auto simp: isdigit_def int_space_def Let_def)

lemma findall_ports_digits:
  "p \<in> set (findall_ports s) \<Longrightarrow> p \<noteq> [] \<and> (\<forall>c \<in> set p. isdigit c)"
proof (induction s rule: findall_ports.induct)
  case 1
  then show ?case by simp
next
  case (2 c cs)
  note mem = \<open>p \<in> set (findall_ports (c # cs))\<close>
  show ?case
  proof (cases "c = CHR '':''")
    case False
    with mem have "p \<in> set (findall_ports cs)" by simp
    with False show ?thesis by (rule "2.IH"(4))
  next
    case colon: True
    show ?thesis
    proof (cases "dropWhile isdigit cs")
      case Nil
      with mem colon have "p \<in> set (findall_ports cs)" by simp
      with colon Nil show ?thesis by (rule "2.IH"(1))
    next
      case (Cons r rest)
      show ?thesis
      proof (cases "takeWhile isdigit cs \<noteq> [] \<and> isspace r")
        case False
        with mem colon Cons have "p \<in> set (findall_ports cs)" by auto
        with colon Cons False show ?thesis by (rule "2.IH"(3))
      next
        case True
        with mem colon Cons
        have "p = takeWhile isdigit cs \<or> p \<in> set (findall_ports rest)" by auto
        then show ?thesis
        proof
          assume "p = takeWhile isdigit cs"
          with True show ?thesis by (auto dest: set_takeWhileD)
        next
          assume "p \<in> set (findall_ports rest)"
          with colon Cons True show ?thesis by (rule "2.IH"(2))
        qed
      qed
    qed
  qed
qed

lemma digit_groups_digits:
  "p \<noteq> [] \<Longrightarrow> \<forall>c \<in> set p. isdigit c \<Longrightarrow> digit_groups p"
proof (induction p rule: digit_groups.induct)
  case 1
  then show ?case by simp
next
  case (2 c)
  then show ?case by simp
next
  case (3 c d cs)
  then have "d \<noteq> CHR ''_''" by (auto simp: isdigit_def)
  with 3 show ?case by simp
qed

lemma int_strip_digits:
  assumes "p \<noteq> []" and "\<forall>c \<in> set p. isdigit c"
  shows "int_strip p = p"
proof -
  obtain c cs where p: "p = c # cs" using assms(1) by (cases p) auto
  then have first: "\<not> int_space c" using assms(2) by (simp add: isdigit_not_int_space)
  have "rev p \<noteq> []" using assms(1) by simp
  then obtain d ds where r: "rev p = d # ds" by (cases "rev p") auto
  then have "d \<in> set p" by (metis list.set_intros(1) set_rev)
  then have last: "\<not> int_space d" using assms(2) by (simp add: isdigit_not_int_space)
  have "dropWhile int_space p = p" using p first by simp
  moreover have "dropWhile int_space (rev p) = rev p" using r last by simp
  ultimately show ?thesis by (simp add: int_strip_def)
qed

lemma py_int_digits:
  assumes "p \<noteq> []" and "\<forall>c \<in> set p. isdigit c"
  shows "py_int p = Inr (int (digits_value p))"
proof -
  obtain c cs where p: "p = c # cs" using assms(1) by (cases p) auto
  then have "isdigit c" using assms(2) by simp
  then have "c \<noteq> CHR ''-''" and "c \<noteq> CHR ''+''" by (auto simp: isdigit_def)
  with p have "hd p \<noteq> CHR ''-''" and "hd p \<noteq> CHR ''+''" by simp_all
  then show ?thesis
    using int_strip_digits [OF assms] digit_groups_digits [OF assms]
    by (simp add: py_int_def Let_def)
qed

lemma open_ports_loop_sound:
  assumes "\<forall>p \<in> set ports. p \<noteq> [] \<and> (\<forall>c \<in> set p. isdigit c)"
    and "i \<in> set (open_ports_loop ports)"
  shows "\<exists>p \<in> set ports. id' i = ''unexpected_open_port_'' @ p \<and> severity i = ''medium''
           \<and> int (digits_value p) \<notin> allowed_ports"
  using assms
proof (induction ports)
  case Nil
  then show ?case by simp
next
  case (Cons port ports)
  then have num: "py_int port = Inr (int (digits_value port))"
    by (simp add: py_int_digits)
  from Cons.prems(2) num
  have "(int (digits_value port) \<notin> allowed_ports
          \<and> id' i = ''unexpected_open_port_'' @ port \<and> severity i = ''medium'')
        \<or> i \<in> set (open_ports_loop ports)"
    by (auto split: if_splits)
  then show ?case
  proof
    assume "int (digits_value port) \<notin> allowed_ports
            \<and> id' i = ''unexpected_open_port_'' @ port \<and> severity i = ''medium''"
    then show ?thesis by simp
  next
    assume "i \<in> set (open_ports_loop ports)"
    with Cons.IH Cons.prems(1) show ?thesis by simp
  qed
qed

lemma open_ports_loop_complete:
  assumes "\<forall>p \<in> set ports. p \<noteq> [] \<and> (\<forall>c \<in> set p. isdigit c)"
    and "p \<in> set ports" and "int (digits_value p) \<notin> allowed_ports"
  shows "\<exists>i \<in> set (open_ports_loop ports).
           id' i = ''unexpected_open_port_'' @ p \<and> severity i = ''medium''"
  using assms
proof (induction ports)
  case Nil
  then show ?case by simp
next
  case (Cons port ports)
  then have num: "py_int port = Inr (int (digits_value port))"
    by (simp add: py_int_digits)
  show ?case
  proof (cases "p = port")
    case True
    with Cons.prems(3) num show ?thesis by simp
  next
    case False
    with Cons.prems have "p \<in> set ports" by simp
    with Cons.IH Cons.prems(1) Cons.prems(3)
    have "\<exists>i \<in> set (open_ports_loop ports).
            id' i = ''unexpected_open_port_'' @ p \<and> severity i = ''medium''"
      by simp
    with num show ?thesis by auto
  qed
qed

lemma security_checks_open_port:
  assumes "i \<in> set (security_checks py run clock h)"
    and "startswith (id' i) ''unexpected_open_port_''"
  shows "i \<in> set (check_open_ports run h)"
proof -
  have "i \<notin> set (check_failed_logins run h)"
    using assms(2) by (auto simp: startswith_def dest: check_failed_logins_ids)
  moreover have "i \<notin> set (check_sudo_usage run h)"
    using assms(2) by (auto simp: startswith_def dest: check_sudo_usage_ids)
  moreover have "i \<notin> set (check_suspicious_processes run h)"
    using assms(2) by (auto simp: startswith_def dest: check_suspicious_processes_ids)
  moreover have "i \<notin> set (check_modified_system_files py clock h)"
    using assms(2) by (auto simp: startswith_def dest: check_modified_system_files_ids)
  moreover have "i \<notin> set (check_ssh_config h)"
    using assms(2) by (auto simp: startswith_def dest: check_ssh_config_ids)
  moreover have "i \<notin> set (check_firewall_status run h)"
    using assms(2) by (auto simp: startswith_def dest: check_firewall_status_ids)
  ultimately show ?thesis
    using assms(1) by (simp add: security_checks_def)
qed
text \<open>
  Claim C7. When \<^verbatim>\<open>ss -tuln | grep LISTEN\<close> has run with exit status 0, every port
  \<open>p\<close> that \<^verbatim>\<open>_check_open_ports\<close> reads from its output (a run of digits, which
  \<^verbatim>\<open>int\<close> turns into the port number \<open>n\<close>) has an issue with the id
  \<^verbatim>\<open>unexpected_open_port_\<close> followed by \<open>p\<close> and severity medium in the result of
  \<^verbatim>\<open>check_security\<close> if and only if \<open>n\<close> is not one of 22, 80, 443, 3306, 5432, 8000
  and 8080. When every port read is in that list, no issue of \<^verbatim>\<open>check_security\<close> has
  an id that starts with \<^verbatim>\<open>unexpected_open_port_\<close>.
\<close>

theorem unexpected_open_ports:
  assumes "query run (Shell ''ss -tuln | grep LISTEN'') h = Inr result"
    and "returncode result = 0"
  shows "(\<forall>p \<in> set (findall_ports (stdout result)).
           \<exists>n. py_int p = Inr n
             \<and> ((\<exists>i \<in> set (fst (check_security py run clock h st)).
                    id' i = ''unexpected_open_port_'' @ p \<and> severity i = ''medium'')
                  \<longleftrightarrow> n \<notin> allowed_ports))
       \<and> ((\<forall>p \<in> set (findall_ports (stdout result)). \<exists>n. py_int p = Inr n \<and> n \<in> allowed_ports)
            \<longrightarrow> \<not> (\<exists>i \<in> set (fst (check_security py run clock h st)).
                       startswith (id' i) ''unexpected_open_port_''))"
proof -
  let ?ports = "findall_ports (stdout result)"
  let ?issues = "fst (check_security py run clock h st)"
  have digits: "\<forall>p \<in> set ?ports. p \<noteq> [] \<and> (\<forall>c \<in> set p. isdigit c)"
    by (auto dest: findall_ports_digits)
  have loop: "check_open_ports run h = open_ports_loop ?ports"
    using assms by (simp add: check_open_ports_def)
  have issues: "?issues = security_checks py run clock h"
    by (simp add: check_security_def Let_def)
  have included: "set (open_ports_loop ?ports) \<subseteq> set ?issues"
    unfolding issues loop [symmetric] by (auto simp: security_checks_def)
  have from_ports: "i \<in> set (open_ports_loop ?ports)"
    if "i \<in> set ?issues" and "startswith (id' i) ''unexpected_open_port_''" for i
    using security_checks_open_port [of i py run clock h] that
    unfolding issues loop by simp
  have first: "\<exists>n. py_int p = Inr n
             \<and> ((\<exists>i \<in> set ?issues. id' i = ''unexpected_open_port_'' @ p \<and> severity i = ''medium'')
                  \<longleftrightarrow> n \<notin> allowed_ports)"
    if p: "p \<in> set ?ports" for p
  proof -
    have num: "py_int p = Inr (int (digits_value p))"
      using digits p by (simp add: py_int_digits)
    have "(\<exists>i \<in> set ?issues. id' i = ''unexpected_open_port_'' @ p \<and> severity i = ''medium'')
          \<longleftrightarrow> int (digits_value p) \<notin> allowed_ports"
    proof
      assume "\<exists>i \<in> set ?issues. id' i = ''unexpected_open_port_'' @ p \<and> severity i = ''medium''"
      then obtain i where i: "i \<in> set ?issues" "id' i = ''unexpected_open_port_'' @ p"
        by blast
      then have "startswith (id' i) ''unexpected_open_port_''"
        by (simp add: startswith_def)
      with i have "i \<in> set (open_ports_loop ?ports)" by (simp add: from_ports)
      from open_ports_loop_sound [OF digits this] i(2)
      show "int (digits_value p) \<notin> allowed_ports" by auto
    next
      assume "int (digits_value p) \<notin> allowed_ports"
      from open_ports_loop_complete [OF digits p this] included
      show "\<exists>i \<in> set ?issues. id' i = ''unexpected_open_port_'' @ p \<and> severity i = ''medium''"
        by blast
    qed
    with num show ?thesis by simp
  qed
  have second: "\<not> (\<exists>i \<in> set ?issues. startswith (id' i) ''unexpected_open_port_'')"
    if allowed: "\<forall>p \<in> set ?ports. \<exists>n. py_int p = Inr n \<and> n \<in> allowed_ports"
  proof
    assume "\<exists>i \<in> set ?issues. startswith (id' i) ''unexpected_open_port_''"
    then obtain i where "i \<in> set ?issues" "startswith (id' i) ''unexpected_open_port_''"
      by blast
    then have "i \<in> set (open_ports_loop ?ports)" by (simp add: from_ports)
    from open_ports_loop_sound [OF digits this]
    obtain q where q: "q \<in> set ?ports" "int (digits_value q) \<notin> allowed_ports" by blast
    have "py_int q = Inr (int (digits_value q))"
      using digits q(1) by (simp add: py_int_digits)
    with allowed q show False by auto
  qed
  from first second show ?thesis by blast
qed

theorem unexpected_open_ports_witness:
  "query ss_runner (Shell ''ss -tuln | grep LISTEN'') idle_host =
     Inr \<lparr>returncode = 0, stdout = ss_output\<rparr>
   \<and> findall_ports ss_output = [''22'', ''9999'']
   \<and> py_int ''22'' = Inr 22 \<and> py_int ''9999'' = Inr 9999
   \<and> (\<exists>i \<in> set (fst (check_security plain_py ss_runner (\<lambda>_. 0) idle_host fresh_daemon)).
         id' i = ''unexpected_open_port_9999'' \<and> severity i = ''medium'')
   \<and> \<not> (\<exists>i \<in> set (fst (check_security plain_py ss_runner (\<lambda>_. 0) idle_host fresh_daemon)).
           id' i = ''unexpected_open_port_22'' \<and> severity i = ''medium'')"
proof -
  let ?result = "\<lparr>returncode = 0, stdout = ss_output\<rparr>"
  have ran: "query ss_runner (Shell ''ss -tuln | grep LISTEN'') idle_host = Inr ?result"
    by (simp add: query_def ss_runner_def scripted_def)
  have ok: "returncode ?result = 0" by simp
  have ports: "findall_ports (stdout ?result) = [''22'', ''9999'']"
    by code_simp
  have n22: "py_int ''22'' = Inr 22" and n9999: "py_int ''9999'' = Inr 9999"
    by code_simp+
  note main = unexpected_open_ports [OF ran ok, of plain_py "\<lambda>_. 0" fresh_daemon,
                                       THEN conjunct1, unfolded ports]
  from main n9999
  have a: "\<exists>i \<in> set (fst (check_security plain_py ss_runner (\<lambda>_. 0) idle_host fresh_daemon)).
         id' i = ''unexpected_open_port_9999'' \<and> severity i = ''medium''"
    by (simp add: allowed_ports_def)
  from main n22
  have b: "\<not> (\<exists>i \<in> set (fst (check_security plain_py ss_runner (\<lambda>_. 0) idle_host fresh_daemon)).
           id' i = ''unexpected_open_port_22'' \<and> severity i = ''medium'')"
    by (simp add: allowed_ports_def)
  from ran ports n22 n9999 a b show ?thesis by simp
qed

section \<open>Repeating a check on an unchanged host\<close>

lemma modified_files_loop_clock:
  assumes "\<forall>f \<in> set files. \<forall>m. path_exists h f \<and> getmtime h f = Inr m
             \<longrightarrow> (clock f - m < 86400 \<longleftrightarrow> clock' f - m < 86400)"
  shows "modified_files_loop py clock' h files = modified_files_loop py clock h files"
  using assms
proof (induction files)
  case Nil
  show ?case by simp
next
  case (Cons f files)
  then have rest: "modified_files_loop py clock' h files = modified_files_loop py clock h files"
    by simp
  show ?case
  proof (cases "path_exists h f")
    case False
    with rest show ?thesis by simp
  next
    case True
    show ?thesis
    proof (cases "getmtime h f")
      case (Inl e)
      with True show ?thesis by simp
    next
      case (Inr m)
      with True Cons.prems have "clock f - m < 86400 \<longleftrightarrow> clock' f - m < 86400"
        by simp
      with True Inr rest show ?thesis by simp
    qed
  qed
qed

text \<open>
  Claim C10, as the code has it. The issues of \<^verbatim>\<open>check_health\<close> are a function of the
  observed host alone: a second invocation on the same host returns the same issues,
  whatever the first one left in the daemon's state. The issues of \<^verbatim>\<open>check_security\<close>
  are a function of the observed host and of the clock: \<^verbatim>\<open>_check_modified_system_files\<close>
  compares \<^verbatim>\<open>time.time()\<close> with each file's modification time. Two invocations on the
  same host return the same issues (so the same ids) when, for every critical file that
  exists, the two clock readings put its age on the same side of 86400 seconds.
\<close>

theorem checks_repeatable:
  "fst (check_health py run h st') = fst (check_health py run h st)
   \<and> ((\<forall>f \<in> set critical_files. \<forall>m. path_exists h f \<and> getmtime h f = Inr m
          \<longrightarrow> (clock f - m < 86400 \<longleftrightarrow> clock' f - m < 86400))
        \<longrightarrow> fst (check_security py run clock' h st') = fst (check_security py run clock h st))"
proof -
  have health: "fst (check_health py run h st') = fst (check_health py run h st)"
    by (simp add: check_health_def Let_def)
  have security: "fst (check_security py run clock' h st') = fst (check_security py run clock h st)"
    if "\<forall>f \<in> set critical_files. \<forall>m. path_exists h f \<and> getmtime h f = Inr m
          \<longrightarrow> (clock f - m < 86400 \<longleftrightarrow> clock' f - m < 86400)"
    using modified_files_loop_clock [OF that, of py]
    by (simp add: check_security_def Let_def security_checks_def check_modified_system_files_def)
  from health security show ?thesis by blast
qed

theorem checks_repeatable_witness:
  "((100 :: rat) - 0 < 86400 \<longleftrightarrow> (200 :: rat) - 0 < 86400)
   \<and> map id' (fst (check_security plain_py (scripted []) (\<lambda>_. 100) passwd_host fresh_daemon)) =
       [''modified_system_file_passwd'', ''firewall_disabled'']
   \<and> fst (check_security plain_py (scripted []) (\<lambda>_. 200) passwd_host
            (snd (check_security plain_py (scripted []) (\<lambda>_. 100) passwd_host fresh_daemon))) =
       fst (check_security plain_py (scripted []) (\<lambda>_. 100) passwd_host fresh_daemon)"
proof -
  have same_side: "\<forall>f \<in> set critical_files. \<forall>m.
      path_exists passwd_host f \<and> getmtime passwd_host f = Inr m
      \<longrightarrow> ((\<lambda>_. 100) f - m < 86400 \<longleftrightarrow> (\<lambda>_. 200) f - m < (86400 :: rat))"
    by (auto simp: passwd_host_def)
  have ids: "map id' (fst (check_security plain_py (scripted []) (\<lambda>_. 100) passwd_host fresh_daemon)) =
      [''modified_system_file_passwd'', ''firewall_disabled'']"
    by code_simp
  from checks_repeatable [of plain_py "scripted []" passwd_host _ fresh_daemon "\<lambda>_. 100" "\<lambda>_. 200",
                          THEN conjunct2, THEN mp, OF same_side] ids
  show ?thesis by simp
qed

text \<open>
  The claim as the specification words it (the ids do not depend on time) fails for
  \<^verbatim>\<open>check_security\<close>: the host is the same, the second invocation comes two seconds
  after the first, and \<^verbatim>\<open>/etc/passwd\<close>, modified 86399 seconds before the first, is
  reported by the first invocation only.
\<close>

theorem check_security_clock_counterexample:
  "map id' (fst (check_security plain_py (scripted []) (\<lambda>_. 86399) passwd_host fresh_daemon)) =
     [''modified_system_file_passwd'', ''firewall_disabled'']
   \<and> map id' (fst (check_security plain_py (scripted []) (\<lambda>_. 86401) passwd_host
        (snd (check_security plain_py (scripted []) (\<lambda>_. 86399) passwd_host fresh_daemon)))) =
       [''firewall_disabled'']
   \<and> id' ` set (fst (check_security plain_py (scripted []) (\<lambda>_. 86399) passwd_host fresh_daemon))
       \<noteq> id' ` set (fst (check_security plain_py (scripted []) (\<lambda>_. 86401) passwd_host
            (snd (check_security plain_py (scripted []) (\<lambda>_. 86399) passwd_host fresh_daemon))))"
proof -
  have first: "map id' (fst (check_security plain_py (scripted []) (\<lambda>_. 86399) passwd_host
        fresh_daemon)) = [''modified_system_file_passwd'', ''firewall_disabled'']"
    by code_simp
  have second: "map id' (fst (check_security plain_py (scripted []) (\<lambda>_. 86401) passwd_host
        (snd (check_security plain_py (scripted []) (\<lambda>_. 86399) passwd_host fresh_daemon)))) =
      [''firewall_disabled'']"
    by code_simp
  have "set (map id' (fst (check_security plain_py (scripted []) (\<lambda>_. 86399) passwd_host
          fresh_daemon)))
        \<noteq> set (map id' (fst (check_security plain_py (scripted []) (\<lambda>_. 86401) passwd_host
            (snd (check_security plain_py (scripted []) (\<lambda>_. 86399) passwd_host fresh_daemon)))))"
    unfolding first second by simp
  then have "id' ` set (fst (check_security plain_py (scripted []) (\<lambda>_. 86399) passwd_host
          fresh_daemon))
        \<noteq> id' ` set (fst (check_security plain_py (scripted []) (\<lambda>_. 86401) passwd_host
            (snd (check_security plain_py (scripted []) (\<lambda>_. 86399) passwd_host fresh_daemon))))"
    by simp
  with first second show ?thesis by blast
qed

section \<open>From a disk issue's id back to its mount point\<close>

lemma replace_char: "replace s [a] [b] = map (\<lambda>c. if c = a then b else c) s"
proof -
  have "replace_nonempty [a] [b] s = map (\<lambda>c. if c = a then b else c) s"
    by (induction s) (simp_all add: startswith_def)
  then show ?thesis by (simp add: replace_def)
qed

lemma replace_nonempty_absent:
  "old \<noteq> [] \<Longrightarrow> \<not> str_in old s \<Longrightarrow> replace_nonempty old new s = s"
  by (induction s) auto

text \<open>
  Where the round trip from mount point to id and back holds: for a mount point that starts with a slash,
  has no underscore in it, and whose id has no second occurrence of \<^verbatim>\<open>disk_usage_\<close>,
  the repair handler derives the mount point the issue was raised for.
\<close>

theorem disk_mountpoint_round_trip:
  assumes "startswith m ''/''"
    and "CHR ''_'' \<notin> set m"
    and "\<not> str_in ''disk_usage_'' (replace m ''/'' ''_'')"
  shows "disk_mountpoint (''disk_usage_'' @ replace m ''/'' ''_'') = m"
proof -
  let ?m' = "replace m ''/'' ''_''"
  have strip_prefix: "replace (''disk_usage_'' @ ?m') ''disk_usage_'' [] = ?m'"
    using replace_nonempty_absent [OF _ assms(3), of "[]"]
    by (simp add: replace_def startswith_def)
  have "replace ?m' ''_'' ''/'' = map (\<lambda>c. if c = CHR ''_'' then CHR ''/'' else c)
                                      (map (\<lambda>c. if c = CHR ''/'' then CHR ''_'' else c) m)"
    by (simp only: replace_char)
  also have "\<dots> = m"
    using assms(2) by (induction m) auto
  finally have restored: "replace ?m' ''_'' ''/'' = m" .
  show ?thesis
    unfolding disk_mountpoint_def Let_def strip_prefix restored
    using assms(1) by simp
qed

theorem disk_mountpoint_round_trip_witness:
  "startswith ''/data'' ''/'' \<and> CHR ''_'' \<notin> set ''/data''
   \<and> \<not> str_in ''disk_usage_'' (replace ''/data'' ''/'' ''_'')
   \<and> disk_mountpoint ''disk_usage__data'' = ''/data''"
proof -
  have a: "startswith ''/data'' ''/''" and b: "CHR ''_'' \<notin> set ''/data''"
    by (simp_all add: startswith_def)
  have c: "\<not> str_in ''disk_usage_'' (replace ''/data'' ''/'' ''_'')"
    by code_simp
  have d: "''disk_usage_'' @ replace ''/data'' ''/'' ''_'' = ''disk_usage__data''"
    by code_simp
  from disk_mountpoint_round_trip [OF a b c] a b c d show ?thesis by simp
qed

text \<open>
  Claim C6 at a mount point with an underscore in its name. \<^verbatim>\<open>check_health\<close> flags
  \<^verbatim>\<open>/mnt/my_data\<close> under the id \<^verbatim>\<open>disk_usage__mnt_my_data\<close>; the repair handler turns
  every underscore of the id back into a slash and reports \<^verbatim>\<open>/mnt/my/data\<close>, which is
  not the mount point the issue was raised for.
\<close>

theorem disk_mountpoint_underscore:
  "map id' (fst (check_health plain_py (scripted []) my_data_host fresh_daemon)) =
     [''disk_usage__mnt_my_data'']
   \<and> ''disk_usage_'' @ replace ''/mnt/my_data'' ''/'' ''_'' = ''disk_usage__mnt_my_data''
   \<and> disk_mountpoint ''disk_usage__mnt_my_data'' = ''/mnt/my/data''
   \<and> fst (repair_disk_usage plain_py (scripted []) ''disk_usage__mnt_my_data'' my_data_host) =
       \<lparr>id' = ''disk_usage__mnt_my_data'', success = True,
         message = ''Cleaned up disk space on /mnt/my/data''\<rparr>"
proof -
  have flagged: "map id' (fst (check_health plain_py (scripted []) my_data_host fresh_daemon)) =
      [''disk_usage__mnt_my_data'']"
    by code_simp
  have made: "''disk_usage_'' @ replace ''/mnt/my_data'' ''/'' ''_'' = ''disk_usage__mnt_my_data''"
    by code_simp
  have derived: "disk_mountpoint ''disk_usage__mnt_my_data'' = ''/mnt/my/data''"
    by code_simp
  have repaired:
    "fst (repair_disk_usage plain_py (scripted []) ''disk_usage__mnt_my_data'' my_data_host) =
       \<lparr>id' = ''disk_usage__mnt_my_data'', success = True,
         message = ''Cleaned up disk space on /mnt/my/data''\<rparr>"
    by code_simp
  from flagged made derived repaired show ?thesis by simp
qed

end
